theory Spec2Isabelle
  imports Complex_Main "HOL-Library.Multiset"
begin

section \<open>JavaScript containers\<close>

text \<open>
  A JavaScript \<^verbatim>\<open>Map\<close> iterates in insertion order, \<^verbatim>\<open>set\<close> on a key that is present
  replaces the value in place and on a new key appends, \<^verbatim>\<open>delete\<close> removes the entry.
  Both managers iterate their maps (fan-out, host transfer, ranking), so a map is an
  association list in insertion order.
\<close>

type_synonym ('k, 'v) jsmap = "('k \<times> 'v) list"

definition Map_get :: "'k \<Rightarrow> ('k, 'v) jsmap \<Rightarrow> 'v option" where
  "Map_get k m = map_of m k"

definition Map_has :: "'k \<Rightarrow> ('k, 'v) jsmap \<Rightarrow> bool" where
  "Map_has k m = (k \<in> set (map fst m))"

fun Map_set :: "'k \<Rightarrow> 'v \<Rightarrow> ('k, 'v) jsmap \<Rightarrow> ('k, 'v) jsmap" where
  "Map_set k v [] = [(k, v)]"
| "Map_set k v (e # m) = (if fst e = k then (k, v) # m else e # Map_set k v m)"

definition Map_delete :: "'k \<Rightarrow> ('k, 'v) jsmap \<Rightarrow> ('k, 'v) jsmap" where
  "Map_delete k m = filter (\<lambda>e. fst e \<noteq> k) m"

definition Map_values :: "('k, 'v) jsmap \<Rightarrow> 'v list" where
  "Map_values m = map snd m"

definition Map_size :: "('k, 'v) jsmap \<Rightarrow> int" where
  "Map_size m = int (length m)"

section \<open>JavaScript numbers\<close>

text \<open>
  A JavaScript number is an IEEE 754 double: not-a-number, the two infinities, or a
  finite value. The two zeros are one value here: the managers divide by no variable,
  comparisons and \<^verbatim>\<open>||\<close> treat both alike, and \<^verbatim>\<open>JSON.stringify\<close> writes both as 0.
  A field that is missing in a message reads as \<^verbatim>\<open>undefined\<close>, which arithmetic and
  comparisons turn into not-a-number, so \<open>NaN\<close> is also what such a field is.

  Every operation computes the exact result and rounds it to the nearest double, ties
  to the even significand: \<open>ulp64 x\<close> is the distance of neighbouring doubles at the
  size of \<open>x\<close> (53 significant bits, subnormal below \<open>2 powr - 1022\<close>), and a rounded
  result of size \<open>2 powr 1024\<close> or more is an infinity.
\<close>

datatype jsnum = NaN | PInf | NInf | Fin real

definition rne :: "real \<Rightarrow> int" where
  \<comment> \<open>the nearest integer, ties to even\<close>
  "rne y = (let f = \<lfloor>y\<rfloor>; d = y - of_int f
            in if d < 1 / 2 then f else if 1 / 2 < d then f + 1
               else if even f then f else f + 1)"

definition ulp64 :: "real \<Rightarrow> real" where
  "ulp64 x = 2 powr (of_int (max \<lfloor>log 2 \<bar>x\<bar>\<rfloor> (- 1022)) - 52)"

definition huge :: real where
  "huge = 2 powr 1024"

definition round64 :: "real \<Rightarrow> jsnum" where
  "round64 x =
     (if x = 0 then Fin 0
      else (let r = of_int (rne (x / ulp64 x)) * ulp64 x
            in if huge \<le> r then PInf else if r \<le> - huge then NInf else Fin r))"

fun jadd :: "jsnum \<Rightarrow> jsnum \<Rightarrow> jsnum" where
  \<comment> \<open>\<^verbatim>\<open>a + b\<close> on numbers\<close>
  "jadd NaN b = NaN"
| "jadd a NaN = NaN"
| "jadd PInf NInf = NaN"
| "jadd NInf PInf = NaN"
| "jadd PInf b = PInf"
| "jadd a PInf = PInf"
| "jadd NInf b = NInf"
| "jadd a NInf = NInf"
| "jadd (Fin x) (Fin y) = round64 (x + y)"

fun jneg :: "jsnum \<Rightarrow> jsnum" where
  "jneg NaN = NaN"
| "jneg PInf = NInf"
| "jneg NInf = PInf"
| "jneg (Fin x) = Fin (- x)"

definition jsub :: "jsnum \<Rightarrow> jsnum \<Rightarrow> jsnum" where
  \<comment> \<open>\<^verbatim>\<open>a - b\<close>\<close>
  "jsub a b = jadd a (jneg b)"

fun jle :: "jsnum \<Rightarrow> jsnum \<Rightarrow> bool" where
  \<comment> \<open>\<^verbatim>\<open>a <= b\<close>: false when either side is not a number\<close>
  "jle NaN b = False"
| "jle a NaN = False"
| "jle NInf b = True"
| "jle a PInf = True"
| "jle PInf b = False"
| "jle a NInf = False"
| "jle (Fin x) (Fin y) = (x \<le> y)"

fun positive :: "jsnum \<Rightarrow> bool" where
  \<comment> \<open>\<^verbatim>\<open>v > 0\<close>\<close>
  "positive PInf = True"
| "positive (Fin x) = (0 < x)"
| "positive v = False"

text \<open>
  ECMAScript leaves the precision of \<^verbatim>\<open>Math.pow\<close> and \<^verbatim>\<open>Math.sqrt\<close> to the
  implementation; the model takes the correctly rounded results, which is what the
  engines give for a square and for the IEEE square root. \<open>Math_pow2 x\<close> is
  \<^verbatim>\<open>Math.pow(x, 2)\<close>, the only power the managers take.
\<close>

fun Math_pow2 :: "jsnum \<Rightarrow> jsnum" where
  "Math_pow2 NaN = NaN"
| "Math_pow2 PInf = PInf"
| "Math_pow2 NInf = PInf"
| "Math_pow2 (Fin x) = round64 (x * x)"

fun Math_sqrt :: "jsnum \<Rightarrow> jsnum" where
  "Math_sqrt NaN = NaN"
| "Math_sqrt PInf = PInf"
| "Math_sqrt NInf = NaN"
| "Math_sqrt (Fin x) = (if x < 0 then NaN else round64 (sqrt x))"

text \<open>
  Every finite double is an integer multiple of the smallest one, \<open>2 powr - 1074\<close>:
  \<open>onGrid\<close> holds of every JavaScript number.
\<close>

definition onGrid :: "jsnum \<Rightarrow> bool" where
  "onGrid v = (case v of Fin x \<Rightarrow> (\<exists>k::int. x = of_int k * 2 powr (- 1074)) | _ \<Rightarrow> True)"

text \<open>
  \<^verbatim>\<open>Array.prototype.sort(cmp)\<close> is a stable sort: an element for which the comparator
  is positive against a later one goes behind it, and elements the comparator does not
  separate keep their order; a comparator result that is not a number counts as 0. The
  model inserts from the right end, each element in front of the first one that it does
  not have to follow. (For a comparator that is not a consistent order ECMAScript leaves
  the result to the implementation; the model is one such result.)
\<close>

fun insert_by :: "('a \<Rightarrow> 'a \<Rightarrow> jsnum) \<Rightarrow> 'a \<Rightarrow> 'a list \<Rightarrow> 'a list" where
  "insert_by cmp a [] = [a]"
| "insert_by cmp a (b # bs) =
     (if positive (cmp a b) then b # insert_by cmp a bs else a # b # bs)"

definition Array_sort :: "('a \<Rightarrow> 'a \<Rightarrow> jsnum) \<Rightarrow> 'a list \<Rightarrow> 'a list" where
  "Array_sort cmp xs = foldr (insert_by cmp) xs []"

section \<open>The game synchronisation manager (gameSync)\<close>

subsection \<open>Data model\<close>

text \<open>
  Both managers run on one event loop. A handler is modelled as one step, from the state
  before the message to the state after it and the list of what it sent, in the order of
  the source; two handlers that interleave at an \<^verbatim>\<open>await\<close> are not modelled.

  A WebSocket is known by its identity; whether it is open (\<^verbatim>\<open>readyState === OPEN\<close>)
  is a fact of the environment at the time of a send, which every handler receives as
  the predicate \<open>opn\<close>. The numbers the game computes with (coordinates, radius,
  damage, lives, score, points) are doubles, \<open>jsnum\<close>; the level, which stays at
  the literal 1, and the sizes and capacities are integers.
  Wall-clock fields (\<^verbatim>\<open>createdAt\<close>, \<^verbatim>\<open>timestamp\<close>, \<^verbatim>\<open>lastActivity\<close>) and the display
  texts (\<^verbatim>\<open>name\<close>, \<^verbatim>\<open>message\<close>) are left out; the error texts are the constructors of
  \<open>ErrorText\<close>.
\<close>

type_synonym ws = nat

record position =
  posx :: jsnum
  posy :: jsnum

record GamePlayer =
  gp_id :: string
  gp_username :: string
  gp_isAdmin :: bool
  isHost :: bool
  score :: jsnum
  lives :: jsnum
  level :: int
  position :: position
  powerups :: "string list"
  isReady :: bool
  gp_ws :: ws

datatype GameMode = Competitive | Cooperative

datatype Difficulty = Easy | Medium | Hard

datatype Status = Waiting | Playing | Paused | Finished

record GameSettings =
  maxPlayers :: int
  isPrivate :: bool
  password :: "string option"
  gameMode :: GameMode
  difficulty :: Difficulty

text \<open>
  The game state is an untyped JSON object. The keys of an object are kept in the order
  in which JavaScript enumerates them: the array indices (the decimal strings of the
  integers from 0 to \<open>2^32 - 2\<close>) in ascending order, then the other keys in the
  order of their creation.
\<close>

datatype jsval =
    JNull
  | JBool bool
  | JNum int
  | JStr string
  | JArr "jsval list"
  | JObj "(string \<times> jsval) list"

type_synonym jsobject = "(string, jsval) jsmap"

definition digitOf :: "char \<Rightarrow> nat option" where
  "digitOf c = (let n = (of_char c :: nat) in if 48 \<le> n \<and> n \<le> 57 then Some (n - 48) else None)"

fun decimal :: "nat \<Rightarrow> string \<Rightarrow> nat option" where
  "decimal acc [] = Some acc"
| "decimal acc (c # cs) =
     (case digitOf c of None \<Rightarrow> None | Some d \<Rightarrow> decimal (10 * acc + d) cs)"

definition arrayIndex :: "string \<Rightarrow> nat option" where
  "arrayIndex k =
     (if k = [] \<or> (hd k = CHR ''0'' \<and> tl k \<noteq> []) then None
      else (case decimal 0 k of
              None \<Rightarrow> None
            | Some n \<Rightarrow> if n \<le> 4294967294 then Some n else None))"

fun insertIndex :: "nat \<Rightarrow> string \<Rightarrow> jsval \<Rightarrow> jsobject \<Rightarrow> jsobject" where
  "insertIndex n k v [] = [(k, v)]"
| "insertIndex n k v (e # es) =
     (case arrayIndex (fst e) of
        None \<Rightarrow> (k, v) # e # es
      | Some m \<Rightarrow> if m < n then e # insertIndex n k v es else (k, v) # e # es)"

definition objSet :: "string \<Rightarrow> jsval \<Rightarrow> jsobject \<Rightarrow> jsobject" where
  \<comment> \<open>\<^verbatim>\<open>obj[k] = v\<close>\<close>
  "objSet k v obj =
     (if Map_has k obj then Map_set k v obj
      else (case arrayIndex k of None \<Rightarrow> Map_set k v obj | Some n \<Rightarrow> insertIndex n k v obj))"

record GameRoom =
  gr_id :: string
  gameType :: string
  players :: "(string, GamePlayer) jsmap"
  gameState :: jsobject
  settings :: GameSettings
  status :: Status
  hostId :: string

record GameSyncManager =
  rooms :: "(string, GameRoom) jsmap"
  playerRooms :: "(string, string) jsmap"
  gameTimers :: "(string, unit) jsmap"

subsection \<open>Messages\<close>

datatype GameEventType =
    game_start | game_end | player_move | player_score | game_state_update
  | fruit_spawn | bomb_explosion | room_create | room_join | room_leave
  | player_joined | player_left

datatype ErrorText =
    RoomNotFound | GameInProgress | RoomFull | WrongPassword | NotAllReady

record GameResult =
  res_id :: string
  res_username :: string
  res_score :: jsnum
  res_level :: int

text \<open>
  The payloads of the messages the manager sends. \<^verbatim>\<open>serializeRoom\<close> and
  \<^verbatim>\<open>serializePlayer\<close> copy fields of the room and of the player; the payload carries
  the room and the player as they are at the time of the send.
\<close>

datatype GameData =
    ErrorData ErrorText
  | RoomCreateData GameRoom
  | PlayerJoinedData GamePlayer GameRoom
  | PlayerLeftData GameRoom
  | GameStartData jsobject
  | PlayerMoveData position
  | PlayerScoreData jsnum jsnum string int
  | FruitSpawnData jsval
  | BombExplosionData position jsnum jsnum "(string \<times> jsnum) list"
  | GameStateUpdateData jsobject
  | GameEndData string "GameResult list" "GameResult option"

record GameMessage =
  gm_type :: GameEventType
  gm_roomId :: string
  gm_playerId :: string
  gm_data :: GameData

text \<open>What a handler does to the outside: a send on a socket, a call of the store.\<close>

datatype Effect =
    Send ws GameMessage
  | SaveGameScore string string jsnum int

record PlayerInfo =
  pi_id :: string
  pi_username :: string
  pi_isAdmin :: bool

record CreateSettings =
  cs_maxPlayers :: "int option"
  cs_isPrivate :: "bool option"
  cs_password :: "string option"
  cs_gameMode :: "GameMode option"
  cs_difficulty :: "Difficulty option"

text \<open>
  The requests of a client, one constructor for each message type the dispatcher knows,
  with the fields the handler reads. The random parts (the suffix of a new room id, the
  start position of a joiner) come with the request.
\<close>

datatype GameRequest =
    RoomCreate string string CreateSettings PlayerInfo
  | RoomJoin string PlayerInfo "string option" position
  | RoomLeave string string
  | GameStart string string
  | PlayerMove string string position
  | PlayerScore string string jsnum string
  | GameStateUpdate string string jsobject
  | FruitSpawn string string jsval
  | BombExplosion string string position jsnum jsnum
  | UnknownGameType

subsection \<open>Sending\<close>

definition sendToPlayer :: "(ws \<Rightarrow> bool) \<Rightarrow> ws \<Rightarrow> GameMessage \<Rightarrow> Effect list" where
  "sendToPlayer opn w msg = (if opn w then [Send w msg] else [])"

definition sendError :: "(ws \<Rightarrow> bool) \<Rightarrow> ws \<Rightarrow> ErrorText \<Rightarrow> Effect list" where
  "sendError opn w err =
     sendToPlayer opn w
       \<lparr>gm_type = room_join, gm_roomId = '''', gm_playerId = '''', gm_data = ErrorData err\<rparr>"

text \<open>The fan-out: every member but the excluded one, when its socket is open.\<close>

definition broadcastToRoom ::
  "(ws \<Rightarrow> bool) \<Rightarrow> (string, GameRoom) jsmap \<Rightarrow> string \<Rightarrow> GameMessage \<Rightarrow> string option \<Rightarrow> Effect list"
where
  "broadcastToRoom opn rs roomId msg excludePlayerId =
     (case Map_get roomId rs of
        None \<Rightarrow> []
      | Some room \<Rightarrow>
          concat (map (\<lambda>e. if Some (fst e) \<noteq> excludePlayerId \<and> opn (gp_ws (snd e))
                            then sendToPlayer opn (gp_ws (snd e)) msg else [])
                      (players room)))"

subsection \<open>Helpers\<close>

definition initializeGameState :: "string \<Rightarrow> jsobject" where
  "initializeGameState gt =
     (if gt = ''fruit_catching'' then
        [(''fruits'', JArr []), (''bombs'', JArr []), (''powerups'', JArr []),
         (''gameSpeed'', JNum 1), (''spawnRate'', JNum 1000), (''difficulty'', JStr ''medium'')]
      else if gt = ''racing'' then
        [(''track'', JStr ''default''), (''laps'', JNum 3), (''checkpoints'', JArr []),
         (''obstacles'', JArr [])]
      else [])"

definition calculateDistance :: "position \<Rightarrow> position \<Rightarrow> jsnum" where
  "calculateDistance pos1 pos2 =
     Math_sqrt (jadd (Math_pow2 (jsub (posx pos2) (posx pos1)))
                     (Math_pow2 (jsub (posy pos2) (posy pos1))))"

definition generateRoomId :: "string \<Rightarrow> string" where
  "generateRoomId rnd = ''room_'' @ rnd"

definition clearGameTimer :: "GameSyncManager \<Rightarrow> string \<Rightarrow> GameSyncManager" where
  "clearGameTimer s roomId =
     (if Map_has roomId (gameTimers s) then s\<lparr>gameTimers := Map_delete roomId (gameTimers s)\<rparr>
      else s)"

definition startGameTimer :: "GameSyncManager \<Rightarrow> string \<Rightarrow> GameSyncManager" where
  "startGameTimer s roomId =
     (case Map_get roomId (rooms s) of
        None \<Rightarrow> s
      | Some room \<Rightarrow>
          (let s1 = clearGameTimer s roomId
           in s1\<lparr>gameTimers := Map_set roomId () (gameTimers s1)\<rparr>))"

subsection \<open>Room lifecycle\<close>

definition orDefault :: "int option \<Rightarrow> int \<Rightarrow> int" where
  \<comment> \<open>\<^verbatim>\<open>n || d\<close> on a number that may be absent: absent and 0 are falsy\<close>
  "orDefault n d = (case n of None \<Rightarrow> d | Some v \<Rightarrow> if v = 0 then d else v)"

definition createGameRoom ::
  "(ws \<Rightarrow> bool) \<Rightarrow> GameSyncManager \<Rightarrow> ws \<Rightarrow> string \<Rightarrow> string \<Rightarrow> CreateSettings \<Rightarrow> PlayerInfo
     \<Rightarrow> GameSyncManager \<times> Effect list"
where
  "createGameRoom opn s w rnd gt cs info =
     (let roomId = generateRoomId rnd;
          player = \<lparr>gp_id = pi_id info, gp_username = pi_username info,
                    gp_isAdmin = pi_isAdmin info, isHost = True, score = Fin 0, lives = Fin 3,
                    level = 1, position = \<lparr>posx = Fin 50, posy = Fin 50\<rparr>, powerups = [],
                    isReady = True, gp_ws = w\<rparr>;
          room = \<lparr>gr_id = roomId, gameType = gt,
                  players = Map_set (pi_id info) player [],
                  gameState = initializeGameState gt,
                  settings = \<lparr>maxPlayers = orDefault (cs_maxPlayers cs) 4,
                     isPrivate = (case cs_isPrivate cs of None \<Rightarrow> False | Some b \<Rightarrow> b),
                     password = cs_password cs,
                     gameMode = (case cs_gameMode cs of None \<Rightarrow> Competitive | Some m \<Rightarrow> m),
                     difficulty = (case cs_difficulty cs of None \<Rightarrow> Medium | Some d \<Rightarrow> d)\<rparr>,
                  status = Waiting, hostId = pi_id info\<rparr>;
          s1 = s\<lparr>rooms := Map_set roomId room (rooms s),
                 playerRooms := Map_set (pi_id info) roomId (playerRooms s)\<rparr>
      in (s1, sendToPlayer opn w
                \<lparr>gm_type = room_create, gm_roomId = roomId, gm_playerId = pi_id info,
                 gm_data = RoomCreateData room\<rparr>))"

definition newPlayer :: "PlayerInfo \<Rightarrow> position \<Rightarrow> ws \<Rightarrow> GamePlayer" where
  \<comment> \<open>the player object that \<^verbatim>\<open>joinGameRoom\<close> builds\<close>
  "newPlayer info pos w =
     \<lparr>gp_id = pi_id info, gp_username = pi_username info, gp_isAdmin = pi_isAdmin info,
      isHost = False, score = Fin 0, lives = Fin 3, level = 1, position = pos, powerups = [],
      isReady = False, gp_ws = w\<rparr>"

definition joinGameRoom ::
  "(ws \<Rightarrow> bool) \<Rightarrow> GameSyncManager \<Rightarrow> ws \<Rightarrow> string \<Rightarrow> PlayerInfo \<Rightarrow> string option \<Rightarrow> position
     \<Rightarrow> GameSyncManager \<times> Effect list"
where
  "joinGameRoom opn s w roomId info pw pos =
     (case Map_get roomId (rooms s) of
        None \<Rightarrow> (s, sendError opn w RoomNotFound)
      | Some room \<Rightarrow>
          if status room = Playing then (s, sendError opn w GameInProgress)
          else if Map_size (players room) \<ge> maxPlayers (settings room)
            then (s, sendError opn w RoomFull)
          else if isPrivate (settings room) \<and> password (settings room) \<noteq> pw
            then (s, sendError opn w WrongPassword)
          else
            (let player = newPlayer info pos w;
                 room1 = room\<lparr>players := Map_set (pi_id info) player (players room)\<rparr>;
                 s1 = s\<lparr>rooms := Map_set roomId room1 (rooms s),
                        playerRooms := Map_set (pi_id info) roomId (playerRooms s)\<rparr>
             in (s1, broadcastToRoom opn (rooms s1) roomId
                       \<lparr>gm_type = player_joined, gm_roomId = roomId, gm_playerId = pi_id info,
                        gm_data = PlayerJoinedData player room1\<rparr> None)))"

definition transferHost :: "GameRoom \<Rightarrow> (string, GamePlayer) jsmap \<Rightarrow> GameRoom" where
  \<comment> \<open>\<^verbatim>\<open>room.players.values().next().value\<close> becomes the host\<close>
  "transferHost room ps =
     (case ps of
        [] \<Rightarrow> room\<lparr>players := ps\<rparr>
      | e # rest \<Rightarrow>
          room\<lparr>players := (fst e, (snd e)\<lparr>isHost := True\<rparr>) # rest, hostId := gp_id (snd e)\<rparr>)"

definition leaveGameRoom ::
  "(ws \<Rightarrow> bool) \<Rightarrow> GameSyncManager \<Rightarrow> string \<Rightarrow> string \<Rightarrow> GameSyncManager \<times> Effect list"
where
  "leaveGameRoom opn s roomId playerId =
     (case Map_get roomId (rooms s) of
        None \<Rightarrow> (s, [])
      | Some room \<Rightarrow>
          if \<not> Map_has playerId (players room) then (s, [])
          else
            (let ps1 = Map_delete playerId (players room);
                 pr1 = Map_delete playerId (playerRooms s);
                 room1 = (if hostId room = playerId \<and> Map_size ps1 > 0
                          then transferHost room ps1 else room\<lparr>players := ps1\<rparr>)
             in if Map_size (players room1) = 0
                then (clearGameTimer
                        (s\<lparr>rooms := Map_delete roomId (rooms s), playerRooms := pr1\<rparr>) roomId, [])
                else
                  (let s1 = s\<lparr>rooms := Map_set roomId room1 (rooms s), playerRooms := pr1\<rparr>
                   in (s1, broadcastToRoom opn (rooms s1) roomId
                             \<lparr>gm_type = player_left, gm_roomId = roomId, gm_playerId = playerId,
                              gm_data = PlayerLeftData room1\<rparr> None))))"

fun findSocket :: "ws \<Rightarrow> (string, GameRoom) jsmap \<Rightarrow> (string \<times> string) option" where
  "findSocket w [] = None"
| "findSocket w (e # rest) =
     (case find (\<lambda>p. gp_ws (snd p) = w) (players (snd e)) of
        Some p \<Rightarrow> Some (fst e, fst p)
      | None \<Rightarrow> findSocket w rest)"

definition handlePlayerDisconnect ::
  "(ws \<Rightarrow> bool) \<Rightarrow> GameSyncManager \<Rightarrow> ws \<Rightarrow> GameSyncManager \<times> Effect list"
where
  "handlePlayerDisconnect opn s w =
     (case findSocket w (rooms s) of
        None \<Rightarrow> (s, [])
      | Some rp \<Rightarrow> leaveGameRoom opn s (fst rp) (snd rp))"

subsection \<open>Start and end of a game\<close>

definition startGame ::
  "(ws \<Rightarrow> bool) \<Rightarrow> GameSyncManager \<Rightarrow> string \<Rightarrow> string \<Rightarrow> GameSyncManager \<times> Effect list"
where
  "startGame opn s roomId requester =
     (case Map_get roomId (rooms s) of
        None \<Rightarrow> (s, [])
      | Some room \<Rightarrow>
          if hostId room \<noteq> requester then (s, [])
          else if \<not> list_all isReady (Map_values (players room))
            then (s, broadcastToRoom opn (rooms s) roomId
                       \<lparr>gm_type = game_start, gm_roomId = roomId, gm_playerId = requester,
                        gm_data = ErrorData NotAllReady\<rparr> None)
          else
            (let room1 = room\<lparr>status := Playing,
                              gameState := initializeGameState (gameType room)\<rparr>;
                 s1 = startGameTimer (s\<lparr>rooms := Map_set roomId room1 (rooms s)\<rparr>) roomId
             in (s1, broadcastToRoom opn (rooms s1) roomId
                       \<lparr>gm_type = game_start, gm_roomId = roomId, gm_playerId = requester,
                        gm_data = GameStartData (gameState room1)\<rparr> None)))"

definition toResult :: "GamePlayer \<Rightarrow> GameResult" where
  "toResult p =
     \<lparr>res_id = gp_id p, res_username = gp_username p, res_score = score p, res_level = level p\<rparr>"

definition byScoreDesc :: "GameResult \<Rightarrow> GameResult \<Rightarrow> jsnum" where
  \<comment> \<open>the comparator \<^verbatim>\<open>(a, b) => b.score - a.score\<close>\<close>
  "byScoreDesc a b = jsub (res_score b) (res_score a)"

definition ranking :: "GameRoom \<Rightarrow> GameResult list" where
  "ranking room = Array_sort byScoreDesc (map toResult (Map_values (players room)))"

definition firstResult :: "GameResult list \<Rightarrow> GameResult option" where
  \<comment> \<open>\<^verbatim>\<open>results[0]\<close>, undefined on the empty array\<close>
  "firstResult rs = (case rs of [] \<Rightarrow> None | r # _ \<Rightarrow> Some r)"

definition endGame ::
  "(ws \<Rightarrow> bool) \<Rightarrow> GameSyncManager \<Rightarrow> string \<Rightarrow> string \<Rightarrow> GameSyncManager \<times> Effect list"
where
  "endGame opn s roomId reason =
     (case Map_get roomId (rooms s) of
        None \<Rightarrow> (s, [])
      | Some room \<Rightarrow>
          (let room1 = room\<lparr>status := Finished\<rparr>;
               s1 = clearGameTimer (s\<lparr>rooms := Map_set roomId room1 (rooms s)\<rparr>) roomId;
               results = ranking room1
           in (s1,
               map (\<lambda>p. SaveGameScore (gp_id p) (gameType room1) (score p) (level p))
                   (Map_values (players room1))
               @ broadcastToRoom opn (rooms s1) roomId
                   \<lparr>gm_type = game_end, gm_roomId = roomId, gm_playerId = '''',
                    gm_data = GameEndData reason results (firstResult results)\<rparr> None)))"

definition timerFired ::
  "(ws \<Rightarrow> bool) \<Rightarrow> GameSyncManager \<Rightarrow> string \<Rightarrow> GameSyncManager \<times> Effect list"
where
  \<comment> \<open>the callback armed by \<^verbatim>\<open>startGameTimer\<close>, five minutes later\<close>
  "timerFired opn s roomId =
     (if Map_has roomId (gameTimers s) then endGame opn s roomId ''timeout'' else (s, []))"

subsection \<open>Gameplay events\<close>

definition setPlayer :: "GameSyncManager \<Rightarrow> string \<Rightarrow> GameRoom \<Rightarrow> string \<Rightarrow> GamePlayer \<Rightarrow> GameSyncManager" where
  \<comment> \<open>an assignment to a field of a player object of a room, seen in the store\<close>
  "setPlayer s roomId room playerId p =
     s\<lparr>rooms := Map_set roomId (room\<lparr>players := Map_set playerId p (players room)\<rparr>) (rooms s)\<rparr>"

definition handlePlayerMove ::
  "(ws \<Rightarrow> bool) \<Rightarrow> GameSyncManager \<Rightarrow> string \<Rightarrow> string \<Rightarrow> position \<Rightarrow> GameSyncManager \<times> Effect list"
where
  "handlePlayerMove opn s roomId playerId pos =
     (case Map_get roomId (rooms s) of
        None \<Rightarrow> (s, [])
      | Some room \<Rightarrow>
          if status room \<noteq> Playing then (s, [])
          else
            (case Map_get playerId (players room) of
               None \<Rightarrow> (s, [])
             | Some player \<Rightarrow>
                 (let s1 = setPlayer s roomId room playerId (player\<lparr>position := pos\<rparr>)
                  in (s1, broadcastToRoom opn (rooms s1) roomId
                            \<lparr>gm_type = player_move, gm_roomId = roomId, gm_playerId = playerId,
                             gm_data = PlayerMoveData pos\<rparr> (Some playerId)))))"

definition handlePlayerScore ::
  "(ws \<Rightarrow> bool) \<Rightarrow> GameSyncManager \<Rightarrow> string \<Rightarrow> string \<Rightarrow> jsnum \<Rightarrow> string \<Rightarrow> GameSyncManager \<times> Effect list"
where
  "handlePlayerScore opn s roomId playerId points itemType =
     (case Map_get roomId (rooms s) of
        None \<Rightarrow> (s, [])
      | Some room \<Rightarrow>
          (case Map_get playerId (players room) of
             None \<Rightarrow> (s, [])
           | Some player \<Rightarrow>
               (let player1 = player\<lparr>score := jadd (score player) points\<rparr>;
                    s1 = setPlayer s roomId room playerId player1
                in (s1, SaveGameScore playerId (gameType room) (score player1) (level player1)
                        # broadcastToRoom opn (rooms s1) roomId
                            \<lparr>gm_type = player_score, gm_roomId = roomId, gm_playerId = playerId,
                             gm_data = PlayerScoreData (score player1) points itemType
                                         (Map_size (players room))\<rparr> None))))"

fun truthy :: "jsval \<Rightarrow> bool" where
  "truthy JNull = False"
| "truthy (JBool b) = b"
| "truthy (JNum n) = (n \<noteq> 0)"
| "truthy (JStr t) = (t \<noteq> [])"
| "truthy (JArr _) = True"
| "truthy (JObj _) = True"

definition pushFruit :: "jsobject \<Rightarrow> jsval \<Rightarrow> jsobject option" where
  \<comment> \<open>\<^verbatim>\<open>if (!gs.fruits) gs.fruits = []; gs.fruits.push(fruit)\<close>; \<open>None\<close> when
      \<^verbatim>\<open>push\<close> is not there to call (a TypeError, before anything is written)\<close>
  "pushFruit gs fruit =
     (let gs1 = (case Map_get ''fruits'' gs of
                   None \<Rightarrow> objSet ''fruits'' (JArr []) gs
                 | Some v \<Rightarrow> if truthy v then gs else objSet ''fruits'' (JArr []) gs)
      in case Map_get ''fruits'' gs1 of
           Some (JArr fs) \<Rightarrow> Some (objSet ''fruits'' (JArr (fs @ [fruit])) gs1)
         | _ \<Rightarrow> None)"

definition handleFruitSpawn ::
  "(ws \<Rightarrow> bool) \<Rightarrow> GameSyncManager \<Rightarrow> string \<Rightarrow> string \<Rightarrow> jsval \<Rightarrow> GameSyncManager \<times> Effect list"
where
  "handleFruitSpawn opn s roomId playerId fruit =
     (case Map_get roomId (rooms s) of
        None \<Rightarrow> (s, [])
      | Some room \<Rightarrow>
          if status room \<noteq> Playing then (s, [])
          else
            (case pushFruit (gameState room) fruit of
               None \<Rightarrow> (s, [])
             | Some gs1 \<Rightarrow>
                 (let s1 = s\<lparr>rooms := Map_set roomId (room\<lparr>gameState := gs1\<rparr>) (rooms s)\<rparr>
                  in (s1, broadcastToRoom opn (rooms s1) roomId
                            \<lparr>gm_type = fruit_spawn, gm_roomId = roomId, gm_playerId = playerId,
                             gm_data = FruitSpawnData fruit\<rparr> None))))"

definition explode :: "position \<Rightarrow> jsnum \<Rightarrow> jsnum \<Rightarrow> GamePlayer \<Rightarrow> GamePlayer" where
  \<comment> \<open>the body of the \<^verbatim>\<open>forEach\<close> of \<^verbatim>\<open>handleBombExplosion\<close>\<close>
  "explode explosionPosition radius damage player =
     (if jle (calculateDistance (position player) explosionPosition) radius
      then (let l = jsub (lives player) damage
            in player\<lparr>lives := (if jle l (Fin 0) then Fin 0 else l)\<rparr>)
      else player)"

definition affectedPlayers :: "position \<Rightarrow> jsnum \<Rightarrow> GamePlayer list \<Rightarrow> (string \<times> jsnum) list" where
  "affectedPlayers explosionPosition radius ps =
     map (\<lambda>p. (gp_id p, lives p))
       (filter (\<lambda>p. jle (calculateDistance (position p) explosionPosition) radius) ps)"

definition handleBombExplosion ::
  "(ws \<Rightarrow> bool) \<Rightarrow> GameSyncManager \<Rightarrow> string \<Rightarrow> string \<Rightarrow> position \<Rightarrow> jsnum \<Rightarrow> jsnum
     \<Rightarrow> GameSyncManager \<times> Effect list"
where
  "handleBombExplosion opn s roomId playerId explosionPosition radius damage =
     (case Map_get roomId (rooms s) of
        None \<Rightarrow> (s, [])
      | Some room \<Rightarrow>
          (let room1 = room\<lparr>players :=
                         map (\<lambda>e. (fst e, explode explosionPosition radius damage (snd e)))
                             (players room)\<rparr>;
               s1 = s\<lparr>rooms := Map_set roomId room1 (rooms s)\<rparr>
           in (s1, broadcastToRoom opn (rooms s1) roomId
                     \<lparr>gm_type = bomb_explosion, gm_roomId = roomId, gm_playerId = playerId,
                      gm_data = BombExplosionData explosionPosition radius damage
                        (affectedPlayers explosionPosition radius (Map_values (players room1)))\<rparr>
                     None)))"

definition broadcastGameState ::
  "(ws \<Rightarrow> bool) \<Rightarrow> GameSyncManager \<Rightarrow> string \<Rightarrow> string \<Rightarrow> jsobject \<Rightarrow> GameSyncManager \<times> Effect list"
where
  "broadcastGameState opn s roomId playerId updates =
     (case Map_get roomId (rooms s) of
        None \<Rightarrow> (s, [])
      | Some room \<Rightarrow>
          (let gs1 = foldl (\<lambda>m e. objSet (fst e) (snd e) m) (gameState room) updates;
               s1 = s\<lparr>rooms := Map_set roomId (room\<lparr>gameState := gs1\<rparr>) (rooms s)\<rparr>
           in (s1, broadcastToRoom opn (rooms s1) roomId
                     \<lparr>gm_type = game_state_update, gm_roomId = roomId, gm_playerId = playerId,
                      gm_data = GameStateUpdateData gs1\<rparr> None)))"

subsection \<open>The dispatcher\<close>

fun handleGameMessage ::
  "(ws \<Rightarrow> bool) \<Rightarrow> GameSyncManager \<Rightarrow> ws \<Rightarrow> GameRequest \<Rightarrow> GameSyncManager \<times> Effect list"
where
  "handleGameMessage opn s w (RoomCreate rnd gt cs info) = createGameRoom opn s w rnd gt cs info"
| "handleGameMessage opn s w (RoomJoin roomId info pw pos) = joinGameRoom opn s w roomId info pw pos"
| "handleGameMessage opn s w (RoomLeave roomId playerId) = leaveGameRoom opn s roomId playerId"
| "handleGameMessage opn s w (GameStart roomId playerId) = startGame opn s roomId playerId"
| "handleGameMessage opn s w (PlayerMove roomId playerId pos) =
     handlePlayerMove opn s roomId playerId pos"
| "handleGameMessage opn s w (PlayerScore roomId playerId points itemType) =
     handlePlayerScore opn s roomId playerId points itemType"
| "handleGameMessage opn s w (GameStateUpdate roomId playerId updates) =
     broadcastGameState opn s roomId playerId updates"
| "handleGameMessage opn s w (FruitSpawn roomId playerId fruit) =
     handleFruitSpawn opn s roomId playerId fruit"
| "handleGameMessage opn s w (BombExplosion roomId playerId pos radius damage) =
     handleBombExplosion opn s roomId playerId pos radius damage"
| "handleGameMessage opn s w UnknownGameType = (s, [])"

definition emptyGameSync :: GameSyncManager where
  "emptyGameSync = \<lparr>rooms = [], playerRooms = [], gameTimers = []\<rparr>"

section \<open>The voice chat manager (voiceChat)\<close>

subsection \<open>Data model\<close>

datatype Quality = QLow | QMedium | QHigh

record VoiceUser =
  vu_id :: string
  vu_username :: string
  vu_isAdmin :: bool
  isMuted :: bool
  isSpeaking :: bool
  isDeafened :: bool
  volume :: int
  quality :: "Quality option"
  vu_ws :: ws
  micEnabled :: bool
  speakerEnabled :: bool

record VoiceSettings =
  maxUsers :: int
  vs_isPrivate :: bool
  vs_password :: "string option"
  autoMute :: bool
  noiseReduction :: bool
  echoCancellation :: bool
  bitrate :: int
  sampleRate :: int

record VoiceRoom =
  vr_id :: string
  users :: "(string, VoiceUser) jsmap"
  vr_settings :: VoiceSettings
  ownerId :: string
  isTemporary :: bool

record VoiceChatManager =
  vrooms :: "(string, VoiceRoom) jsmap"
  userRooms :: "(string, string) jsmap"

subsection \<open>Messages\<close>

datatype VoiceChatEventType =
    voice_room_join | voice_room_leave | voice_start_speaking | voice_stop_speaking
  | voice_audio_data | voice_mute | voice_unmute | voice_quality_change | voice_room_create
  | voice_room_settings | voice_user_status | voice_echo_test | voice_noise_reduction

datatype VoiceErrorText = VoiceRoomNotFound | VoiceRoomFull | VoiceWrongPassword

text \<open>An audio payload is opaque: the manager forwards it as it came.\<close>

type_synonym AudioPayload = "nat list"

datatype VoiceData =
    VoiceErrorData VoiceErrorText
  | RoomJoinData VoiceRoom
  | UserJoinedData VoiceUser
  | UserLeftData
  | StartSpeakingData string "Quality option"
  | StopSpeakingData string
  | AudioData AudioPayload real string string "Quality option"
  | MuteData string bool
  | VoiceRoomCreateData VoiceRoom
  | QualityChangeData "Quality option" int
  | EchoTestData AudioPayload int
  | RoomSettingsData VoiceSettings

record VoiceMessage =
  vm_type :: VoiceChatEventType
  vm_roomId :: string
  vm_userId :: string
  vm_data :: VoiceData

type_synonym VoiceSend = "ws \<times> VoiceMessage"

record UserInfo =
  ui_id :: string
  ui_username :: string
  ui_isAdmin :: bool

record RoomData =
  rd_isPrivate :: "bool option"
  rd_password :: "string option"
  rd_maxUsers :: "int option"

text \<open>
  The requests of a client. A join reads the room id from the payload
  (\<^verbatim>\<open>message.data.roomId\<close>), where it can be missing; the other handlers read
  \<^verbatim>\<open>message.roomId\<close> and \<^verbatim>\<open>message.userId\<close>.
\<close>

datatype VoiceRequest =
    VoiceRoomJoin "string option" UserInfo "string option"
  | VoiceRoomLeave string string
  | VoiceStartSpeaking string string
  | VoiceStopSpeaking string string
  | VoiceAudioData string string AudioPayload
  | VoiceMute string string
  | VoiceUnmute string string
  | VoiceRoomCreate string RoomData UserInfo
  | VoiceQualityChange string string "Quality option" "int option"
  | VoiceEchoTest string string AudioPayload
  | VoiceNoiseReduction string string bool
  | UnknownVoiceType

subsection \<open>Sending\<close>

definition sendToUser :: "(ws \<Rightarrow> bool) \<Rightarrow> ws \<Rightarrow> VoiceMessage \<Rightarrow> VoiceSend list" where
  "sendToUser opn w msg = (if opn w then [(w, msg)] else [])"

definition sendVoiceError :: "(ws \<Rightarrow> bool) \<Rightarrow> ws \<Rightarrow> VoiceErrorText \<Rightarrow> VoiceSend list" where
  "sendVoiceError opn w err =
     sendToUser opn w
       \<lparr>vm_type = voice_room_join, vm_roomId = '''', vm_userId = '''',
        vm_data = VoiceErrorData err\<rparr>"

definition broadcastToVoiceRoom ::
  "(ws \<Rightarrow> bool) \<Rightarrow> (string, VoiceRoom) jsmap \<Rightarrow> string \<Rightarrow> VoiceMessage \<Rightarrow> string option
     \<Rightarrow> VoiceSend list"
where
  "broadcastToVoiceRoom opn rs roomId msg excludeUserId =
     (case Map_get roomId rs of
        None \<Rightarrow> []
      | Some room \<Rightarrow>
          concat (map (\<lambda>e. if Some (fst e) \<noteq> excludeUserId \<and> opn (vu_ws (snd e))
                            then sendToUser opn (vu_ws (snd e)) msg else [])
                      (users room)))"

subsection \<open>Rooms and membership\<close>

definition createRoom ::
  "VoiceChatManager \<Rightarrow> string \<Rightarrow> string \<Rightarrow> bool \<Rightarrow> string option \<Rightarrow> int \<Rightarrow> bool
     \<Rightarrow> VoiceChatManager \<times> VoiceRoom"
where
  "createRoom s rid owner private pw maxU temporary =
     (let room = \<lparr>vr_id = rid, users = [],
                  vr_settings = \<lparr>maxUsers = maxU, vs_isPrivate = private, vs_password = pw,
                     autoMute = False, noiseReduction = True, echoCancellation = True,
                     bitrate = 64000, sampleRate = 44100\<rparr>,
                  ownerId = owner, isTemporary = temporary\<rparr>
      in (s\<lparr>vrooms := Map_set rid room (vrooms s)\<rparr>, room))"

definition setupDefaultRooms :: VoiceChatManager where
  \<comment> \<open>the state the constructor leaves\<close>
  "setupDefaultRooms =
     fst (createRoom
            (fst (createRoom \<lparr>vrooms = [], userRooms = []\<rparr>
                    ''general'' ''system'' False None 50 False))
            ''gaming'' ''system'' False None 20 False)"

definition removeUserFromRoom ::
  "(ws \<Rightarrow> bool) \<Rightarrow> VoiceChatManager \<Rightarrow> string \<Rightarrow> string \<Rightarrow> VoiceChatManager \<times> VoiceSend list"
where
  "removeUserFromRoom opn s userId roomId =
     (case Map_get roomId (vrooms s) of
        None \<Rightarrow> (s, [])
      | Some room \<Rightarrow>
          (case Map_get userId (users room) of
             None \<Rightarrow> (s, [])
           | Some user \<Rightarrow>
               (let room1 = room\<lparr>users := Map_delete userId (users room)\<rparr>;
                    s1 = s\<lparr>vrooms := Map_set roomId room1 (vrooms s),
                           userRooms := Map_delete userId (userRooms s)\<rparr>;
                    out = broadcastToVoiceRoom opn (vrooms s1) roomId
                            \<lparr>vm_type = voice_user_status, vm_roomId = roomId, vm_userId = userId,
                             vm_data = UserLeftData\<rparr> None
                in (if isTemporary room1 \<and> Map_size (users room1) = 0
                    then s1\<lparr>vrooms := Map_delete roomId (vrooms s1)\<rparr> else s1, out))))"

definition newVoiceUser :: "UserInfo \<Rightarrow> ws \<Rightarrow> VoiceUser" where
  \<comment> \<open>the user object that \<^verbatim>\<open>handleRoomJoin\<close> builds\<close>
  "newVoiceUser info w =
     \<lparr>vu_id = ui_id info, vu_username = ui_username info, vu_isAdmin = ui_isAdmin info,
      isMuted = False, isSpeaking = False, isDeafened = False, volume = 100,
      quality = Some QMedium, vu_ws = w, micEnabled = True, speakerEnabled = True\<rparr>"

definition evictPrevious ::
  "(ws \<Rightarrow> bool) \<Rightarrow> VoiceChatManager \<Rightarrow> string \<Rightarrow> VoiceChatManager \<times> VoiceSend list"
where
  \<comment> \<open>\<^verbatim>\<open>if (previousRoomId) removeUserFromRoom(...)\<close>: the empty string is falsy\<close>
  "evictPrevious opn s userId =
     (case Map_get userId (userRooms s) of
        None \<Rightarrow> (s, [])
      | Some previousRoomId \<Rightarrow>
          if previousRoomId = [] then (s, [])
          else removeUserFromRoom opn s userId previousRoomId)"

text \<open>
  \<^verbatim>\<open>handleRoomJoin\<close> holds the room object from before the eviction. The eviction can
  take the user out of that very object and, when the room is temporary and then empty,
  take the object out of the store; the join goes on writing to the object, which the
  store no longer shows.
\<close>

definition handleRoomJoin ::
  "(ws \<Rightarrow> bool) \<Rightarrow> VoiceChatManager \<Rightarrow> ws \<Rightarrow> string option \<Rightarrow> UserInfo \<Rightarrow> string option
     \<Rightarrow> VoiceChatManager \<times> VoiceSend list"
where
  "handleRoomJoin opn s w roomIdOpt info pw =
     (case roomIdOpt of
        None \<Rightarrow> (s, sendVoiceError opn w VoiceRoomNotFound)
      | Some roomId \<Rightarrow>
     (case Map_get roomId (vrooms s) of
        None \<Rightarrow> (s, sendVoiceError opn w VoiceRoomNotFound)
      | Some room \<Rightarrow>
          if Map_size (users room) \<ge> maxUsers (vr_settings room)
            then (s, sendVoiceError opn w VoiceRoomFull)
          else if vs_isPrivate (vr_settings room) \<and> vs_password (vr_settings room) \<noteq> pw
            then (s, sendVoiceError opn w VoiceWrongPassword)
          else
            (let ev = evictPrevious opn s (ui_id info);
                 s1 = fst ev;
                 roomObj = (case Map_get roomId (vrooms s1) of
                              Some r \<Rightarrow> r
                            | None \<Rightarrow> room\<lparr>users := Map_delete (ui_id info) (users room)\<rparr>);
                 voiceUser = newVoiceUser info w;
                 roomObj1 = roomObj\<lparr>users := Map_set (ui_id info) voiceUser (users roomObj)\<rparr>;
                 s2 = s1\<lparr>vrooms := (if Map_has roomId (vrooms s1)
                                      then Map_set roomId roomObj1 (vrooms s1) else vrooms s1),
                         userRooms := Map_set (ui_id info) roomId (userRooms s1)\<rparr>
             in (s2, snd ev
                     @ sendToUser opn w
                         \<lparr>vm_type = voice_room_join, vm_roomId = roomId, vm_userId = ui_id info,
                          vm_data = RoomJoinData roomObj1\<rparr>
                     @ broadcastToVoiceRoom opn (vrooms s2) roomId
                         \<lparr>vm_type = voice_user_status, vm_roomId = roomId,
                          vm_userId = ui_id info, vm_data = UserJoinedData voiceUser\<rparr>
                         (Some (ui_id info))))))"

definition handleRoomLeave ::
  "(ws \<Rightarrow> bool) \<Rightarrow> VoiceChatManager \<Rightarrow> string \<Rightarrow> string \<Rightarrow> VoiceChatManager \<times> VoiceSend list"
where
  "handleRoomLeave opn s roomId userId = removeUserFromRoom opn s userId roomId"

definition handleUserDisconnect ::
  "(ws \<Rightarrow> bool) \<Rightarrow> VoiceChatManager \<Rightarrow> string \<Rightarrow> VoiceChatManager \<times> VoiceSend list"
where
  "handleUserDisconnect opn s userId = evictPrevious opn s userId"

definition handleRoomCreate ::
  "(ws \<Rightarrow> bool) \<Rightarrow> VoiceChatManager \<Rightarrow> ws \<Rightarrow> string \<Rightarrow> RoomData \<Rightarrow> UserInfo
     \<Rightarrow> VoiceChatManager \<times> VoiceSend list"
where
  \<comment> \<open>the join of the creator is called with the payload \<^verbatim>\<open>{ userInfo }\<close>: no room id in
      it, and no password\<close>
  "handleRoomCreate opn s w rnd roomData info =
     (let roomId = ''voice_'' @ rnd;
          cr = createRoom s roomId (ui_id info)
                 (case rd_isPrivate roomData of None \<Rightarrow> False | Some b \<Rightarrow> b)
                 (rd_password roomData) (orDefault (rd_maxUsers roomData) 10) True;
          jn = handleRoomJoin opn (fst cr) w None info None
      in (fst jn, snd jn
                  @ sendToUser opn w
                      \<lparr>vm_type = voice_room_create, vm_roomId = roomId, vm_userId = ui_id info,
                       vm_data = VoiceRoomCreateData (snd cr)\<rparr>))"

subsection \<open>Speaking, audio, mute\<close>

definition setUser :: "VoiceChatManager \<Rightarrow> string \<Rightarrow> VoiceRoom \<Rightarrow> string \<Rightarrow> VoiceUser \<Rightarrow> VoiceChatManager" where
  \<comment> \<open>an assignment to a field of a user object of a room, seen in the store\<close>
  "setUser s roomId room userId u =
     s\<lparr>vrooms := Map_set roomId (room\<lparr>users := Map_set userId u (users room)\<rparr>) (vrooms s)\<rparr>"

definition handleStartSpeaking ::
  "(ws \<Rightarrow> bool) \<Rightarrow> VoiceChatManager \<Rightarrow> string \<Rightarrow> string \<Rightarrow> VoiceChatManager \<times> VoiceSend list"
where
  "handleStartSpeaking opn s roomId userId =
     (case Map_get roomId (vrooms s) of
        None \<Rightarrow> (s, [])
      | Some room \<Rightarrow>
          (case Map_get userId (users room) of
             None \<Rightarrow> (s, [])
           | Some user \<Rightarrow>
               if isMuted user then (s, [])
               else
                 (let s1 = setUser s roomId room userId (user\<lparr>isSpeaking := True\<rparr>)
                  in (s1, broadcastToVoiceRoom opn (vrooms s1) roomId
                            \<lparr>vm_type = voice_start_speaking, vm_roomId = roomId,
                             vm_userId = userId,
                             vm_data = StartSpeakingData (vu_username user) (quality user)\<rparr>
                            (Some userId)))))"

definition handleStopSpeaking ::
  "(ws \<Rightarrow> bool) \<Rightarrow> VoiceChatManager \<Rightarrow> string \<Rightarrow> string \<Rightarrow> VoiceChatManager \<times> VoiceSend list"
where
  "handleStopSpeaking opn s roomId userId =
     (case Map_get roomId (vrooms s) of
        None \<Rightarrow> (s, [])
      | Some room \<Rightarrow>
          (case Map_get userId (users room) of
             None \<Rightarrow> (s, [])
           | Some user \<Rightarrow>
               (let s1 = setUser s roomId room userId (user\<lparr>isSpeaking := False\<rparr>)
                in (s1, broadcastToVoiceRoom opn (vrooms s1) roomId
                          \<lparr>vm_type = voice_stop_speaking, vm_roomId = roomId,
                           vm_userId = userId, vm_data = StopSpeakingData (vu_username user)\<rparr>
                          (Some userId)))))"

definition applyVolumeControl :: "AudioPayload \<Rightarrow> int \<Rightarrow> AudioPayload \<times> real" where
  \<comment> \<open>the payload with the multiplier \<^verbatim>\<open>volume / 100\<close> attached\<close>
  "applyVolumeControl audioData vol = (audioData, real_of_int vol / 100)"

definition handleAudioData ::
  "(ws \<Rightarrow> bool) \<Rightarrow> VoiceChatManager \<Rightarrow> string \<Rightarrow> string \<Rightarrow> AudioPayload
     \<Rightarrow> VoiceChatManager \<times> VoiceSend list"
where
  "handleAudioData opn s roomId userId audioData =
     (case Map_get roomId (vrooms s) of
        None \<Rightarrow> (s, [])
      | Some room \<Rightarrow>
          (case Map_get userId (users room) of
             None \<Rightarrow> (s, [])
           | Some sender \<Rightarrow>
               if isMuted sender then (s, [])
               else
                 (s, concat (map (\<lambda>e.
                        if fst e \<noteq> userId \<and> \<not> isDeafened (snd e) \<and> speakerEnabled (snd e)
                        then (if opn (vu_ws (snd e))
                              then (let a = applyVolumeControl audioData (volume (snd e))
                                    in sendToUser opn (vu_ws (snd e))
                                         \<lparr>vm_type = voice_audio_data, vm_roomId = roomId,
                                          vm_userId = userId,
                                          vm_data = AudioData (fst a) (snd a) userId
                                                      (vu_username sender) (quality sender)\<rparr>)
                              else [])
                        else [])
                      (users room)))))"

definition handleMute ::
  "(ws \<Rightarrow> bool) \<Rightarrow> VoiceChatManager \<Rightarrow> string \<Rightarrow> string \<Rightarrow> VoiceChatManager \<times> VoiceSend list"
where
  "handleMute opn s roomId userId =
     (case Map_get roomId (vrooms s) of
        None \<Rightarrow> (s, [])
      | Some room \<Rightarrow>
          (case Map_get userId (users room) of
             None \<Rightarrow> (s, [])
           | Some user \<Rightarrow>
               (let s1 = setUser s roomId room userId (user\<lparr>isMuted := True, isSpeaking := False\<rparr>)
                in (s1, broadcastToVoiceRoom opn (vrooms s1) roomId
                          \<lparr>vm_type = voice_mute, vm_roomId = roomId, vm_userId = userId,
                           vm_data = MuteData (vu_username user) True\<rparr> None))))"

definition handleUnmute ::
  "(ws \<Rightarrow> bool) \<Rightarrow> VoiceChatManager \<Rightarrow> string \<Rightarrow> string \<Rightarrow> VoiceChatManager \<times> VoiceSend list"
where
  "handleUnmute opn s roomId userId =
     (case Map_get roomId (vrooms s) of
        None \<Rightarrow> (s, [])
      | Some room \<Rightarrow>
          (case Map_get userId (users room) of
             None \<Rightarrow> (s, [])
           | Some user \<Rightarrow>
               (let s1 = setUser s roomId room userId (user\<lparr>isMuted := False\<rparr>)
                in (s1, broadcastToVoiceRoom opn (vrooms s1) roomId
                          \<lparr>vm_type = voice_unmute, vm_roomId = roomId, vm_userId = userId,
                           vm_data = MuteData (vu_username user) False\<rparr> None))))"

subsection \<open>Settings\<close>

definition orVolume :: "int option \<Rightarrow> int \<Rightarrow> int" where
  \<comment> \<open>\<^verbatim>\<open>message.data.volume || user.volume\<close>: an absent volume and 0 are falsy\<close>
  "orVolume v old = (case v of None \<Rightarrow> old | Some n \<Rightarrow> if n = 0 then old else n)"

definition handleQualityChange ::
  "(ws \<Rightarrow> bool) \<Rightarrow> VoiceChatManager \<Rightarrow> string \<Rightarrow> string \<Rightarrow> Quality option \<Rightarrow> int option
     \<Rightarrow> VoiceChatManager \<times> VoiceSend list"
where
  "handleQualityChange opn s roomId userId q v =
     (case Map_get roomId (vrooms s) of
        None \<Rightarrow> (s, [])
      | Some room \<Rightarrow>
          (case Map_get userId (users room) of
             None \<Rightarrow> (s, [])
           | Some user \<Rightarrow>
               (let user1 = user\<lparr>quality := q, volume := orVolume v (volume user)\<rparr>
                in (setUser s roomId room userId user1,
                    sendToUser opn (vu_ws user1)
                      \<lparr>vm_type = voice_quality_change, vm_roomId = roomId, vm_userId = userId,
                       vm_data = QualityChangeData (quality user1) (volume user1)\<rparr>))))"

definition handleEchoTest ::
  "(ws \<Rightarrow> bool) \<Rightarrow> VoiceChatManager \<Rightarrow> ws \<Rightarrow> string \<Rightarrow> string \<Rightarrow> AudioPayload
     \<Rightarrow> VoiceChatManager \<times> VoiceSend list"
where
  \<comment> \<open>the send happens 500 ms later; \<open>opn\<close> is the state of the socket then\<close>
  "handleEchoTest opn s w roomId userId audioData =
     (s, sendToUser opn w
           \<lparr>vm_type = voice_echo_test, vm_roomId = roomId, vm_userId = userId,
            vm_data = EchoTestData audioData 500\<rparr>)"

definition handleNoiseReduction ::
  "(ws \<Rightarrow> bool) \<Rightarrow> VoiceChatManager \<Rightarrow> string \<Rightarrow> string \<Rightarrow> bool \<Rightarrow> VoiceChatManager \<times> VoiceSend list"
where
  "handleNoiseReduction opn s roomId userId enabled =
     (case Map_get roomId (vrooms s) of
        None \<Rightarrow> (s, [])
      | Some room \<Rightarrow>
          (case Map_get userId (users room) of
             None \<Rightarrow> (s, [])
           | Some user \<Rightarrow>
               if \<not> vu_isAdmin user then (s, [])
               else
                 (let room1 = room\<lparr>vr_settings := (vr_settings room)\<lparr>noiseReduction := enabled\<rparr>\<rparr>;
                      s1 = s\<lparr>vrooms := Map_set roomId room1 (vrooms s)\<rparr>
                  in (s1, broadcastToVoiceRoom opn (vrooms s1) roomId
                            \<lparr>vm_type = voice_room_settings, vm_roomId = roomId,
                             vm_userId = userId, vm_data = RoomSettingsData (vr_settings room1)\<rparr>
                            None))))"

subsection \<open>The dispatcher\<close>

fun handleVoiceMessage ::
  "(ws \<Rightarrow> bool) \<Rightarrow> VoiceChatManager \<Rightarrow> ws \<Rightarrow> VoiceRequest \<Rightarrow> VoiceChatManager \<times> VoiceSend list"
where
  "handleVoiceMessage opn s w (VoiceRoomJoin roomId info pw) = handleRoomJoin opn s w roomId info pw"
| "handleVoiceMessage opn s w (VoiceRoomLeave roomId userId) = handleRoomLeave opn s roomId userId"
| "handleVoiceMessage opn s w (VoiceStartSpeaking roomId userId) =
     handleStartSpeaking opn s roomId userId"
| "handleVoiceMessage opn s w (VoiceStopSpeaking roomId userId) =
     handleStopSpeaking opn s roomId userId"
| "handleVoiceMessage opn s w (VoiceAudioData roomId userId a) =
     handleAudioData opn s roomId userId a"
| "handleVoiceMessage opn s w (VoiceMute roomId userId) = handleMute opn s roomId userId"
| "handleVoiceMessage opn s w (VoiceUnmute roomId userId) = handleUnmute opn s roomId userId"
| "handleVoiceMessage opn s w (VoiceRoomCreate rnd roomData info) =
     handleRoomCreate opn s w rnd roomData info"
| "handleVoiceMessage opn s w (VoiceQualityChange roomId userId q v) =
     handleQualityChange opn s roomId userId q v"
| "handleVoiceMessage opn s w (VoiceEchoTest roomId userId a) =
     handleEchoTest opn s w roomId userId a"
| "handleVoiceMessage opn s w (VoiceNoiseReduction roomId userId enabled) =
     handleNoiseReduction opn s roomId userId enabled"
| "handleVoiceMessage opn s w UnknownVoiceType = (s, [])"

text \<open>
  The states the voice manager can be in: the constructor's, and from there one message
  or one close of a socket at a time, with any sockets open at that time.
\<close>

inductive voice_reachable :: "VoiceChatManager \<Rightarrow> bool" where
  vr_init: "voice_reachable setupDefaultRooms"
| vr_message: "voice_reachable s \<Longrightarrow> voice_reachable (fst (handleVoiceMessage opn s w req))"
| vr_close: "voice_reachable s \<Longrightarrow> voice_reachable (fst (handleUserDisconnect opn s userId))"

subsection \<open>Membership, as the store shows it\<close>

definition userAt :: "VoiceChatManager \<Rightarrow> string \<Rightarrow> string \<Rightarrow> VoiceUser option" where
  \<comment> \<open>\<^verbatim>\<open>rooms.get(roomId)?.users.get(userId)\<close>\<close>
  "userAt s roomId userId =
     (case Map_get roomId (vrooms s) of None \<Rightarrow> None | Some room \<Rightarrow> Map_get userId (users room))"

text \<open>
  What holds of the voice manager in every state it can reach: no room has the empty id,
  the index \<^verbatim>\<open>userRooms\<close> names the room of every member, a muted member is not
  speaking, and no member has volume 0.
\<close>

definition voice_inv :: "VoiceChatManager \<Rightarrow> bool" where
  "voice_inv s =
     (Map_get [] (vrooms s) = None \<and>
      (\<forall>roomId userId u. userAt s roomId userId = Some u \<longrightarrow>
         Map_get userId (userRooms s) = Some roomId \<and> (isMuted u \<longrightarrow> \<not> isSpeaking u) \<and>
         volume u \<noteq> 0))"

section \<open>Scenarios\<close>

text \<open>Concrete runs of the two managers, on which the properties below are evaluated.\<close>

definition allOpen :: "ws \<Rightarrow> bool" where
  "allOpen w = True"

definition alice :: PlayerInfo where
  "alice = \<lparr>pi_id = ''1'', pi_username = ''alice'', pi_isAdmin = False\<rparr>"

definition bob :: PlayerInfo where
  "bob = \<lparr>pi_id = ''2'', pi_username = ''bob'', pi_isAdmin = False\<rparr>"

definition carol :: PlayerInfo where
  "carol = \<lparr>pi_id = ''3'', pi_username = ''carol'', pi_isAdmin = False\<rparr>"

definition capacity :: "int \<Rightarrow> CreateSettings" where
  "capacity n = \<lparr>cs_maxPlayers = Some n, cs_isPrivate = None, cs_password = None,
                 cs_gameMode = None, cs_difficulty = None\<rparr>"

definition corner :: position where
  "corner = \<lparr>posx = Fin 10, posy = Fin 10\<rparr>"

definition aliceHosts :: GameSyncManager where
  \<comment> \<open>alice, on socket 10, creates the room \<open>room_a\<close> for two players\<close>
  "aliceHosts = fst (createGameRoom allOpen emptyGameSync 10 ''a'' ''fruit_catching'' (capacity 2) alice)"

definition bobJoined :: GameSyncManager where
  \<comment> \<open>bob, on socket 11, joins it\<close>
  "bobJoined = fst (joinGameRoom allOpen aliceHosts 11 ''room_a'' bob None corner)"

definition twoRooms :: GameSyncManager where
  \<comment> \<open>alice hosts \<open>room_a\<close>, bob hosts \<open>room_b\<close>\<close>
  "twoRooms = fst (createGameRoom allOpen aliceHosts 11 ''b'' ''racing'' (capacity 4) bob)"

definition ann :: UserInfo where
  "ann = \<lparr>ui_id = ''1'', ui_username = ''ann'', ui_isAdmin = False\<rparr>"

definition ben :: UserInfo where
  "ben = \<lparr>ui_id = ''2'', ui_username = ''ben'', ui_isAdmin = False\<rparr>"

definition cat :: UserInfo where
  "cat = \<lparr>ui_id = ''3'', ui_username = ''cat'', ui_isAdmin = False\<rparr>"

definition annAndBen :: VoiceChatManager where
  \<comment> \<open>ann (socket 20) and ben (socket 21) join the room \<open>general\<close>\<close>
  "annAndBen =
     fst (handleRoomJoin allOpen
            (fst (handleRoomJoin allOpen setupDefaultRooms 20 (Some ''general'') ann None))
            21 (Some ''general'') ben None)"

definition annMuted :: VoiceChatManager where
  "annMuted = fst (handleMute allOpen annAndBen ''general'' ''1'')"

definition smallRoom :: VoiceChatManager where
  \<comment> \<open>a voice room \<open>voice_x\<close> for two, with ann and ben in it\<close>
  "smallRoom =
     fst (handleRoomJoin allOpen
            (fst (handleRoomJoin allOpen
                    (fst (handleRoomCreate allOpen setupDefaultRooms 20 ''x''
                            \<lparr>rd_isPrivate = None, rd_password = None, rd_maxUsers = Some 2\<rparr> ann))
                    20 (Some ''voice_x'') ann None))
            21 (Some ''voice_x'') ben None)"







definition annRejoined :: VoiceChatManager where
  \<comment> \<open>ann, muted, sends a join for the room she is in\<close>
  "annRejoined =
     fst (handleVoiceMessage allOpen annMuted 20 (VoiceRoomJoin (Some ''general'') ann None))"

definition annUnmuted :: VoiceChatManager where
  "annUnmuted = fst (handleVoiceMessage allOpen annMuted 20 (VoiceUnmute ''general'' ''1''))"

section \<open>Properties\<close>

subsection \<open>Maps and fan-out\<close>

lemma Map_get_Map_set: "Map_get k (Map_set k' v m) = (if k = k' then Some v else Map_get k m)"
  by (induction m) (auto simp: Map_get_def)

lemma Map_get_Map_delete: "Map_get k (Map_delete k' m) = (if k = k' then None else Map_get k m)"
  by (induction m) (auto simp: Map_get_def Map_delete_def)

lemma Map_has_Map_set: "Map_has k (Map_set k' v m) = (k = k' \<or> Map_has k m)"
  by (induction m) (auto simp: Map_has_def)


lemma Map_has_get: "Map_has k m = (Map_get k m \<noteq> None)"
  by (induction m) (auto simp: Map_has_def Map_get_def)

lemma fanout_all:
  "concat (map (\<lambda>e. if opn (gp_ws (snd e))
                      then sendToPlayer opn (gp_ws (snd e)) msg else []) ps)
   = map (\<lambda>w. Send w msg) (filter opn (map gp_ws (Map_values ps)))"
  by (induction ps) (auto simp: sendToPlayer_def Map_values_def)

lemma broadcastToRoom_all:
  "Map_get roomId rs = Some room \<Longrightarrow>
   broadcastToRoom opn rs roomId msg None
   = map (\<lambda>w. Send w msg) (filter opn (map gp_ws (Map_values (players room))))"
  by (simp add: broadcastToRoom_def fanout_all)

lemma gameTimers_startGameTimer:
  "Map_get roomId (rooms s) = Some room \<Longrightarrow> Map_has roomId (gameTimers (startGameTimer s roomId))"
  by (simp add: startGameTimer_def clearGameTimer_def Map_has_Map_set Let_def)

lemma rooms_startGameTimer: "rooms (startGameTimer s roomId) = rooms s"
  by (simp add: startGameTimer_def clearGameTimer_def Let_def split: option.splits)


subsection \<open>Starting a game\<close>

text \<open>
  Claim C3. A \<^verbatim>\<open>game_start\<close> message for a room that is not in the store, or from a
  requester who is not the room's host, changes nothing and sends nothing. From the host,
  when some member is not ready, it changes nothing and sends the not-all-ready feedback
  to every member with an open socket. From the host, when every member is ready, the
  room becomes \<open>Playing\<close> with the game state of the template of its game type,
  whatever the state was before, the room's timer is armed and the start is broadcast.
  So a start message changes the status of a room only to \<open>Playing\<close>, and only when
  the requester is the host and every member was ready when the message came.
\<close>

theorem startGame_transition:
  "(Map_get roomId (rooms s) = None \<longrightarrow> startGame opn s roomId requester = (s, [])) \<and>
   (\<forall>room. Map_get roomId (rooms s) = Some room \<longrightarrow>
      (hostId room \<noteq> requester \<longrightarrow> startGame opn s roomId requester = (s, [])) \<and>
      (hostId room = requester \<and> \<not> list_all isReady (Map_values (players room)) \<longrightarrow>
         startGame opn s roomId requester =
           (s, map (\<lambda>w. Send w \<lparr>gm_type = game_start, gm_roomId = roomId, gm_playerId = requester,
                                 gm_data = ErrorData NotAllReady\<rparr>)
                   (filter opn (map gp_ws (Map_values (players room)))))) \<and>
      (hostId room = requester \<and> list_all isReady (Map_values (players room)) \<longrightarrow>
         Map_get roomId (rooms (fst (startGame opn s roomId requester))) =
           Some (room\<lparr>status := Playing, gameState := initializeGameState (gameType room)\<rparr>) \<and>
         Map_has roomId (gameTimers (fst (startGame opn s roomId requester))) \<and>
         snd (startGame opn s roomId requester) =
           map (\<lambda>w. Send w \<lparr>gm_type = game_start, gm_roomId = roomId, gm_playerId = requester,
                             gm_data = GameStartData (initializeGameState (gameType room))\<rparr>)
               (filter opn (map gp_ws (Map_values (players room))))) \<and>
      (\<forall>room'. Map_get roomId (rooms (fst (startGame opn s roomId requester))) = Some room' \<and>
               status room' \<noteq> status room \<longrightarrow>
               status room' = Playing \<and> hostId room = requester \<and>
               list_all isReady (Map_values (players room))))"
proof (intro conjI allI impI)
  assume "Map_get roomId (rooms s) = None"
  then show "startGame opn s roomId requester = (s, [])"
    by (simp add: startGame_def)
next
  fix room
  assume r: "Map_get roomId (rooms s) = Some room" and h: "hostId room \<noteq> requester"
  then show "startGame opn s roomId requester = (s, [])"
    by (simp add: startGame_def)
next
  fix room
  assume r: "Map_get roomId (rooms s) = Some room"
    and h: "hostId room = requester \<and> \<not> list_all isReady (Map_values (players room))"
  then show "startGame opn s roomId requester =
           (s, map (\<lambda>w. Send w \<lparr>gm_type = game_start, gm_roomId = roomId, gm_playerId = requester,
                                 gm_data = ErrorData NotAllReady\<rparr>)
                   (filter opn (map gp_ws (Map_values (players room)))))"
    by (simp add: startGame_def broadcastToRoom_all)
next
  fix room
  assume r: "Map_get roomId (rooms s) = Some room"
    and h: "hostId room = requester \<and> list_all isReady (Map_values (players room))"
  let ?room1 = "room\<lparr>status := Playing, gameState := initializeGameState (gameType room)\<rparr>"
  let ?s0 = "s\<lparr>rooms := Map_set roomId ?room1 (rooms s)\<rparr>"
  have st: "startGame opn s roomId requester =
      (startGameTimer ?s0 roomId,
       broadcastToRoom opn (rooms (startGameTimer ?s0 roomId)) roomId
         \<lparr>gm_type = game_start, gm_roomId = roomId, gm_playerId = requester,
          gm_data = GameStartData (gameState ?room1)\<rparr> None)"
    using r h by (simp add: startGame_def Let_def)
  have g: "Map_get roomId (rooms ?s0) = Some ?room1"
    by (simp add: Map_get_Map_set)
  show "Map_get roomId (rooms (fst (startGame opn s roomId requester))) = Some ?room1"
    using g by (simp add: st rooms_startGameTimer)
  show "Map_has roomId (gameTimers (fst (startGame opn s roomId requester)))"
    using gameTimers_startGameTimer [OF g] by (simp add: st)
  have "broadcastToRoom opn (rooms (startGameTimer ?s0 roomId)) roomId
         \<lparr>gm_type = game_start, gm_roomId = roomId, gm_playerId = requester,
          gm_data = GameStartData (gameState ?room1)\<rparr> None
        = map (\<lambda>w. Send w \<lparr>gm_type = game_start, gm_roomId = roomId, gm_playerId = requester,
                             gm_data = GameStartData (gameState ?room1)\<rparr>)
               (filter opn (map gp_ws (Map_values (players ?room1))))"
    by (rule broadcastToRoom_all) (simp add: rooms_startGameTimer Map_get_Map_set)
  then show "snd (startGame opn s roomId requester) =
           map (\<lambda>w. Send w \<lparr>gm_type = game_start, gm_roomId = roomId, gm_playerId = requester,
                             gm_data = GameStartData (initializeGameState (gameType room))\<rparr>)
               (filter opn (map gp_ws (Map_values (players room))))"
    by (simp add: st)
next
  fix room room'
  assume r: "Map_get roomId (rooms s) = Some room"
    and h: "Map_get roomId (rooms (fst (startGame opn s roomId requester))) = Some room' \<and>
            status room' \<noteq> status room"
  have "status room' = Playing \<and> hostId room = requester \<and>
        list_all isReady (Map_values (players room))"
  proof (cases "hostId room = requester \<and> list_all isReady (Map_values (players room))")
    case True
    then have "Map_get roomId (rooms (fst (startGame opn s roomId requester))) =
       Some (room\<lparr>status := Playing, gameState := initializeGameState (gameType room)\<rparr>)"
      using r by (simp add: startGame_def Let_def rooms_startGameTimer Map_get_Map_set)
    with h True show ?thesis by auto
  next
    case False
    then have "fst (startGame opn s roomId requester) = s"
      using r by (auto simp: startGame_def)
    with h r show ?thesis by auto
  qed
  then show "status room' = Playing" and "hostId room = requester"
    and "list_all isReady (Map_values (players room))"
    by simp_all
qed

theorem startGame_transition_witness:
  "startGame allOpen aliceHosts ''room_a'' ''2'' = (aliceHosts, []) \<and>
   fst (startGame allOpen bobJoined ''room_a'' ''1'') = bobJoined \<and>
   snd (startGame allOpen bobJoined ''room_a'' ''1'') =
     [Send 10 \<lparr>gm_type = game_start, gm_roomId = ''room_a'', gm_playerId = ''1'',
               gm_data = ErrorData NotAllReady\<rparr>,
      Send 11 \<lparr>gm_type = game_start, gm_roomId = ''room_a'', gm_playerId = ''1'',
               gm_data = ErrorData NotAllReady\<rparr>] \<and>
   (\<exists>room'. Map_get ''room_a'' (rooms (fst (startGame allOpen aliceHosts ''room_a'' ''1''))) = Some room' \<and>
      status room' = Playing \<and> gameState room' = initializeGameState ''fruit_catching'') \<and>
   Map_has ''room_a'' (gameTimers (fst (startGame allOpen aliceHosts ''room_a'' ''1'')))"
proof -
  obtain ra where ra: "Map_get ''room_a'' (rooms aliceHosts) = Some ra"
    and ra_host: "hostId ra = ''1''" and ra_ready: "list_all isReady (Map_values (players ra))"
    and ra_type: "gameType ra = ''fruit_catching''"
    by (rule that [of "the (Map_get ''room_a'' (rooms aliceHosts))"]; code_simp)
  obtain rb where rb: "Map_get ''room_a'' (rooms bobJoined) = Some rb"
    and rb_host: "hostId rb = ''1''" and rb_ready: "\<not> list_all isReady (Map_values (players rb))"
    and rb_ws: "filter allOpen (map gp_ws (Map_values (players rb))) = [10, 11]"
    by (rule that [of "the (Map_get ''room_a'' (rooms bobJoined))"]; code_simp)
  have a: "startGame allOpen aliceHosts ''room_a'' ''2'' = (aliceHosts, [])"
    using startGame_transition [of "''room_a''" aliceHosts allOpen "''2''"] ra ra_host by simp
  have b: "startGame allOpen bobJoined ''room_a'' ''1'' =
      (bobJoined, map (\<lambda>w. Send w \<lparr>gm_type = game_start, gm_roomId = ''room_a'', gm_playerId = ''1'',
                                 gm_data = ErrorData NotAllReady\<rparr>) [10, 11])"
    using startGame_transition [of "''room_a''" bobJoined allOpen "''1''"] rb rb_host rb_ready rb_ws
    by simp
  have c: "Map_get ''room_a'' (rooms (fst (startGame allOpen aliceHosts ''room_a'' ''1''))) =
           Some (ra\<lparr>status := Playing, gameState := initializeGameState (gameType ra)\<rparr>) \<and>
         Map_has ''room_a'' (gameTimers (fst (startGame allOpen aliceHosts ''room_a'' ''1'')))"
    using startGame_transition [of "''room_a''" aliceHosts allOpen "''1''"] ra ra_host ra_ready
    by simp
  show ?thesis using a b c ra_type by simp
qed

subsection \<open>Rejected joins\<close>

text \<open>
  Claim C6. A join that fails an admission check (the room is not in the store, a game
  is being played in it, it is full, it is private and the password differs) leaves the
  whole state of the manager as it was, and the only send is one error event on the
  socket of the request. The same holds for a join of a voice room (no room id in the
  payload, room not in the store, full, wrong password). The witness is the third join
  of a room for two.
\<close>

theorem join_rejected_no_change:
  "(Map_get roomId (rooms s) = None \<or>
    (\<exists>room. Map_get roomId (rooms s) = Some room \<and>
       (status room = Playing \<or> maxPlayers (settings room) \<le> Map_size (players room) \<or>
        (isPrivate (settings room) \<and> password (settings room) \<noteq> pw)))
    \<longrightarrow> fst (joinGameRoom opn s w roomId info pw pos) = s \<and>
        (\<exists>err. snd (joinGameRoom opn s w roomId info pw pos) =
           (if opn w then [Send w \<lparr>gm_type = room_join, gm_roomId = '''', gm_playerId = '''',
                                   gm_data = ErrorData err\<rparr>] else []))) \<and>
   (vroomId = None \<or> (\<exists>r. vroomId = Some r \<and> Map_get r (vrooms vs) = None) \<or>
    (\<exists>r room. vroomId = Some r \<and> Map_get r (vrooms vs) = Some room \<and>
       (maxUsers (vr_settings room) \<le> Map_size (users room) \<or>
        (vs_isPrivate (vr_settings room) \<and> vs_password (vr_settings room) \<noteq> vpw)))
    \<longrightarrow> fst (handleRoomJoin opn vs vw vroomId vinfo vpw) = vs \<and>
        (\<exists>err. snd (handleRoomJoin opn vs vw vroomId vinfo vpw) =
           (if opn vw then [(vw, \<lparr>vm_type = voice_room_join, vm_roomId = '''', vm_userId = '''',
                                vm_data = VoiceErrorData err\<rparr>)] else [])))"
proof (intro conjI impI)
  assume "Map_get roomId (rooms s) = None \<or>
    (\<exists>room. Map_get roomId (rooms s) = Some room \<and>
       (status room = Playing \<or> maxPlayers (settings room) \<le> Map_size (players room) \<or>
        (isPrivate (settings room) \<and> password (settings room) \<noteq> pw)))"
  then show "fst (joinGameRoom opn s w roomId info pw pos) = s"
    by (auto simp: joinGameRoom_def)
next
  assume "Map_get roomId (rooms s) = None \<or>
    (\<exists>room. Map_get roomId (rooms s) = Some room \<and>
       (status room = Playing \<or> maxPlayers (settings room) \<le> Map_size (players room) \<or>
        (isPrivate (settings room) \<and> password (settings room) \<noteq> pw)))"
  then show "\<exists>err. snd (joinGameRoom opn s w roomId info pw pos) =
           (if opn w then [Send w \<lparr>gm_type = room_join, gm_roomId = '''', gm_playerId = '''',
                                   gm_data = ErrorData err\<rparr>] else [])"
    by (auto simp: joinGameRoom_def sendError_def sendToPlayer_def)
next
  assume "vroomId = None \<or> (\<exists>r. vroomId = Some r \<and> Map_get r (vrooms vs) = None) \<or>
    (\<exists>r room. vroomId = Some r \<and> Map_get r (vrooms vs) = Some room \<and>
       (maxUsers (vr_settings room) \<le> Map_size (users room) \<or>
        (vs_isPrivate (vr_settings room) \<and> vs_password (vr_settings room) \<noteq> vpw)))"
  then show "fst (handleRoomJoin opn vs vw vroomId vinfo vpw) = vs"
    by (auto simp: handleRoomJoin_def)
next
  assume "vroomId = None \<or> (\<exists>r. vroomId = Some r \<and> Map_get r (vrooms vs) = None) \<or>
    (\<exists>r room. vroomId = Some r \<and> Map_get r (vrooms vs) = Some room \<and>
       (maxUsers (vr_settings room) \<le> Map_size (users room) \<or>
        (vs_isPrivate (vr_settings room) \<and> vs_password (vr_settings room) \<noteq> vpw)))"
  then show "\<exists>err. snd (handleRoomJoin opn vs vw vroomId vinfo vpw) =
           (if opn vw then [(vw, \<lparr>vm_type = voice_room_join, vm_roomId = '''', vm_userId = '''',
                                vm_data = VoiceErrorData err\<rparr>)] else [])"
    by (auto simp: handleRoomJoin_def sendVoiceError_def sendToUser_def)
qed

theorem join_rejected_no_change_witness:
  "(\<exists>room. Map_get ''room_a'' (rooms bobJoined) = Some room \<and> maxPlayers (settings room) = 2 \<and>
      Map_size (players room) = 2) \<and>
   fst (joinGameRoom allOpen bobJoined 12 ''room_a'' carol None corner) = bobJoined \<and>
   (\<exists>err. snd (joinGameRoom allOpen bobJoined 12 ''room_a'' carol None corner) =
      [Send 12 \<lparr>gm_type = room_join, gm_roomId = '''', gm_playerId = '''', gm_data = ErrorData err\<rparr>]) \<and>
   fst (handleRoomJoin allOpen smallRoom 22 (Some ''voice_x'') cat None) = smallRoom \<and>
   (\<exists>err. snd (handleRoomJoin allOpen smallRoom 22 (Some ''voice_x'') cat None) =
      [(22, \<lparr>vm_type = voice_room_join, vm_roomId = '''', vm_userId = '''',
             vm_data = VoiceErrorData err\<rparr>)])"
proof -
  obtain rb where rb: "Map_get ''room_a'' (rooms bobJoined) = Some rb"
    and rb_max: "maxPlayers (settings rb) = 2" and rb_size: "Map_size (players rb) = 2"
    by (rule that [of "the (Map_get ''room_a'' (rooms bobJoined))"]; code_simp)
  obtain vr where vr: "Map_get ''voice_x'' (vrooms smallRoom) = Some vr"
    and vr_max: "maxUsers (vr_settings vr) = 2" and vr_size: "Map_size (users vr) = 2"
    by (rule that [of "the (Map_get ''voice_x'' (vrooms smallRoom))"]; code_simp)
  have g: "Map_get ''room_a'' (rooms bobJoined) = None \<or>
    (\<exists>room. Map_get ''room_a'' (rooms bobJoined) = Some room \<and>
       (status room = Playing \<or> maxPlayers (settings room) \<le> Map_size (players room) \<or>
        (isPrivate (settings room) \<and> password (settings room) \<noteq> None)))"
    using rb rb_max rb_size by simp
  have v: "Some ''voice_x'' = None \<or> (\<exists>r. Some ''voice_x'' = Some r \<and> Map_get r (vrooms smallRoom) = None) \<or>
    (\<exists>r room. Some ''voice_x'' = Some r \<and> Map_get r (vrooms smallRoom) = Some room \<and>
       (maxUsers (vr_settings room) \<le> Map_size (users room) \<or>
        (vs_isPrivate (vr_settings room) \<and> vs_password (vr_settings room) \<noteq> None)))"
    using vr vr_max vr_size by simp
  note th = join_rejected_no_change [where roomId = "''room_a''" and s = bobJoined
         and pw = None and opn = allOpen and w = 12 and info = carol and pos = corner
         and vroomId = "Some ''voice_x''" and vs = smallRoom and vpw = None and vw = 22
         and vinfo = cat]
  note th1 = conjunct1 [OF th, THEN mp, OF g] and th2 = conjunct2 [OF th, THEN mp, OF v]
  from th1 th2
  have True by simp
  show ?thesis using th1 th2 rb rb_max rb_size by (simp add: allOpen_def)
qed

subsection \<open>Audio of a muted sender\<close>

text \<open>
  Claim C9. Audio data from a member whose mute flag is set is dropped: nothing is sent
  to anyone, whatever the settings of the other members, and the state stays as it is.
\<close>

theorem muted_audio_dropped:
  "Map_get roomId (vrooms s) = Some room \<Longrightarrow> Map_get userId (users room) = Some sender \<Longrightarrow>
   isMuted sender \<Longrightarrow> handleAudioData opn s roomId userId audioData = (s, [])"
  by (simp add: handleAudioData_def)

theorem muted_audio_dropped_witness:
  "(\<exists>room sender. Map_get ''general'' (vrooms annMuted) = Some room \<and>
      Map_get ''1'' (users room) = Some sender \<and> isMuted sender \<and>
      Map_has ''2'' (users room)) \<and>
   handleAudioData allOpen annMuted ''general'' ''1'' [1, 2, 3] = (annMuted, [])"
proof -
  obtain room sender where r: "Map_get ''general'' (vrooms annMuted) = Some room"
    and u: "Map_get ''1'' (users room) = Some sender" and m: "isMuted sender"
    and o: "Map_has ''2'' (users room)"
    by (rule that [of "the (Map_get ''general'' (vrooms annMuted))"
          "the (Map_get ''1'' (users (the (Map_get ''general'' (vrooms annMuted)))))"]; code_simp)
  from muted_audio_dropped [OF r u m]
  have "handleAudioData allOpen annMuted ''general'' ''1'' [1, 2, 3] = (annMuted, [])" .
  with r u m o show ?thesis by blast
qed

subsection \<open>Volume in a quality change\<close>

text \<open>
  Claim C10. A \<^verbatim>\<open>voice_quality_change\<close> of a member with volume 0 in its payload
  leaves the member's volume as it was, a volume from 1 to 100 replaces it, and a
  volume that is not 0 before the message is not 0 after it: a quality change cannot
  set the volume to 0. (A join sets the volume to 100, so by \<open>volume_never_zero\<close> below
  no member ever has volume 0.)
\<close>

theorem quality_change_volume:
  "Map_get roomId (vrooms s) = Some room \<Longrightarrow> Map_get userId (users room) = Some user \<Longrightarrow>
   \<exists>room' user'.
     Map_get roomId (vrooms (fst (handleQualityChange opn s roomId userId q v))) = Some room' \<and>
     Map_get userId (users room') = Some user' \<and>
     (v = Some 0 \<longrightarrow> volume user' = volume user) \<and>
     (\<forall>n. v = Some n \<and> 1 \<le> n \<and> n \<le> 100 \<longrightarrow> volume user' = n) \<and>
     (volume user \<noteq> 0 \<longrightarrow> volume user' \<noteq> 0)"
  by (auto simp: handleQualityChange_def setUser_def Map_get_Map_set orVolume_def Let_def
           split: option.splits)

theorem quality_change_volume_witness:
  "(\<exists>room' user'.
     Map_get ''general'' (vrooms (fst (handleQualityChange allOpen annAndBen ''general'' ''1''
        (Some QHigh) (Some 0)))) = Some room' \<and>
     Map_get ''1'' (users room') = Some user' \<and> volume user' = 100) \<and>
   (\<exists>room' user'.
     Map_get ''general'' (vrooms (fst (handleQualityChange allOpen annAndBen ''general'' ''1''
        (Some QHigh) (Some 40)))) = Some room' \<and>
     Map_get ''1'' (users room') = Some user' \<and> volume user' = 40)"
proof -
  obtain room user where r: "Map_get ''general'' (vrooms annAndBen) = Some room"
    and u: "Map_get ''1'' (users room) = Some user" and vol: "volume user = 100"
    by (rule that [of "the (Map_get ''general'' (vrooms annAndBen))"
          "the (Map_get ''1'' (users (the (Map_get ''general'' (vrooms annAndBen)))))"]; code_simp)
  have a: "\<exists>room' user'.
     Map_get ''general'' (vrooms (fst (handleQualityChange allOpen annAndBen ''general'' ''1''
        (Some QHigh) (Some 0)))) = Some room' \<and>
     Map_get ''1'' (users room') = Some user' \<and> volume user' = 100"
    using quality_change_volume [OF r u, of allOpen "Some QHigh" "Some 0"] vol by auto
  have b: "\<exists>room' user'.
     Map_get ''general'' (vrooms (fst (handleQualityChange allOpen annAndBen ''general'' ''1''
        (Some QHigh) (Some 40)))) = Some room' \<and>
     Map_get ''1'' (users room') = Some user' \<and> volume user' = 40"
    using quality_change_volume [OF r u, of allOpen "Some QHigh" "Some 40"] by auto
  show ?thesis by (intro conjI a b)
qed

subsection \<open>The arrival broadcast\<close>

text \<open>
  Claim C7, as stated, does not hold: \<^verbatim>\<open>joinGameRoom\<close> calls the fan-out with no
  excluded player, after it has added the joiner to the room, so the joiner's own socket
  receives the \<^verbatim>\<open>player_joined\<close> event. When bob joins alice's room on socket 11, the
  event goes to socket 11.
\<close>

theorem arrival_broadcast_reaches_joiner:
  "\<exists>m. gm_type m = player_joined \<and> gm_playerId m = ''2'' \<and>
       Send 11 m \<in> set (snd (joinGameRoom allOpen aliceHosts 11 ''room_a'' bob None corner))"
  by (rule exI [of _ "\<lparr>gm_type = player_joined, gm_roomId = ''room_a'', gm_playerId = ''2'',
        gm_data = PlayerJoinedData (newPlayer bob corner 11)
          (the (Map_get ''room_a'' (rooms bobJoined)))\<rparr>"]) code_simp

text \<open>
  Claim C7, amended. On a successful join of a game room the \<^verbatim>\<open>player_joined\<close> event
  goes to every member of the room as it is after the join, once for each member whose
  socket is open, in the order of the room: the members who were there, and the joiner.
\<close>

theorem arrival_broadcast_to_all:
  "Map_get roomId (rooms s) = Some room \<Longrightarrow> status room \<noteq> Playing \<Longrightarrow>
   Map_size (players room) < maxPlayers (settings room) \<Longrightarrow>
   \<not> (isPrivate (settings room) \<and> password (settings room) \<noteq> pw) \<Longrightarrow>
   (\<exists>room' msg.
      Map_get roomId (rooms (fst (joinGameRoom opn s w roomId info pw pos))) = Some room' \<and>
      players room' = Map_set (pi_id info) (newPlayer info pos w) (players room) \<and>
      gm_type msg = player_joined \<and> gm_playerId msg = pi_id info \<and>
      snd (joinGameRoom opn s w roomId info pw pos) =
        map (\<lambda>c. Send c msg) (filter opn (map gp_ws (Map_values (players room')))) \<and>
      w \<in> set (map gp_ws (Map_values (players room'))) \<and>
      (opn w \<longrightarrow> Send w msg \<in> set (snd (joinGameRoom opn s w roomId info pw pos))))"
proof -
  assume r: "Map_get roomId (rooms s) = Some room" and st: "status room \<noteq> Playing"
    and sz: "Map_size (players room) < maxPlayers (settings room)"
    and pw: "\<not> (isPrivate (settings room) \<and> password (settings room) \<noteq> pw)"
  let ?player = "newPlayer info pos w"
  let ?room1 = "room\<lparr>players := Map_set (pi_id info) ?player (players room)\<rparr>"
  let ?msg = "\<lparr>gm_type = player_joined, gm_roomId = roomId, gm_playerId = pi_id info,
               gm_data = PlayerJoinedData ?player ?room1\<rparr>"
  let ?s1 = "s\<lparr>rooms := Map_set roomId ?room1 (rooms s),
               playerRooms := Map_set (pi_id info) roomId (playerRooms s)\<rparr>"
  have j: "joinGameRoom opn s w roomId info pw pos = (?s1, broadcastToRoom opn (rooms ?s1) roomId ?msg None)"
    using r st sz pw by (auto simp: joinGameRoom_def Let_def)
  have g: "Map_get roomId (rooms ?s1) = Some ?room1"
    by (simp add: Map_get_Map_set)
  have out: "snd (joinGameRoom opn s w roomId info pw pos) =
        map (\<lambda>c. Send c ?msg) (filter opn (map gp_ws (Map_values (players ?room1))))"
    using broadcastToRoom_all [OF g] by (simp add: j)
  have "Map_get (pi_id info) (Map_set (pi_id info) ?player (players room)) = Some ?player"
    by (simp add: Map_get_Map_set)
  then have "(pi_id info, ?player) \<in> set (Map_set (pi_id info) ?player (players room))"
    by (simp add: Map_get_def map_of_SomeD)
  then have "gp_ws ?player \<in> set (map gp_ws (Map_values (players ?room1)))"
    by (force simp: Map_values_def)
  then have mem: "w \<in> set (map gp_ws (Map_values (players ?room1)))"
    by (simp add: newPlayer_def)
  have "Map_get roomId (rooms (fst (joinGameRoom opn s w roomId info pw pos))) = Some ?room1 \<and>
      players ?room1 = Map_set (pi_id info) (newPlayer info pos w) (players room) \<and>
      gm_type ?msg = player_joined \<and> gm_playerId ?msg = pi_id info \<and>
      snd (joinGameRoom opn s w roomId info pw pos) =
        map (\<lambda>c. Send c ?msg) (filter opn (map gp_ws (Map_values (players ?room1)))) \<and>
      w \<in> set (map gp_ws (Map_values (players ?room1))) \<and>
      (opn w \<longrightarrow> Send w ?msg \<in> set (snd (joinGameRoom opn s w roomId info pw pos)))"
    using g out mem by (auto simp: j)
  then show ?thesis by blast
qed

theorem arrival_broadcast_to_all_witness:
  "\<exists>msg. gm_type msg = player_joined \<and> gm_playerId msg = ''2'' \<and>
     snd (joinGameRoom allOpen aliceHosts 11 ''room_a'' bob None corner) = [Send 10 msg, Send 11 msg]"
proof -
  obtain ra where ra: "Map_get ''room_a'' (rooms aliceHosts) = Some ra"
    and st: "status ra \<noteq> Playing" and sz: "Map_size (players ra) < maxPlayers (settings ra)"
    and pw: "\<not> (isPrivate (settings ra) \<and> password (settings ra) \<noteq> None)"
    and ps: "map gp_ws (Map_values (Map_set ''2'' (newPlayer bob corner 11) (players ra))) = [10, 11]"
    by (rule that [of "the (Map_get ''room_a'' (rooms aliceHosts))"]; code_simp)
  have b: "pi_id bob = ''2''" by (simp add: bob_def)
  from arrival_broadcast_to_all [OF ra st sz pw, of allOpen 11 bob corner] ps b
  show ?thesis by (auto simp: allOpen_def)
qed

subsection \<open>One room for each identity\<close>

text \<open>
  Claim C1 at a failing input. alice hosts \<open>room_a\<close>, bob hosts \<open>room_b\<close>, and
  alice joins \<open>room_b\<close>: \<^verbatim>\<open>joinGameRoom\<close> adds her to \<open>room_b\<close> and points the
  index to it, and leaves her in the member set of \<open>room_a\<close>. (The join of a voice
  room evicts first: by \<open>voice_member_of_one_room\<close> below, no state that the voice
  manager reaches has an identity in two rooms.)
\<close>

theorem game_join_keeps_previous_room:
  "\<exists>ra rb. Map_get ''room_a'' (rooms (fst (joinGameRoom allOpen twoRooms 10 ''room_b'' alice None corner))) = Some ra \<and>
     Map_get ''room_b'' (rooms (fst (joinGameRoom allOpen twoRooms 10 ''room_b'' alice None corner))) = Some rb \<and>
     Map_has ''1'' (players ra) \<and> Map_has ''1'' (players rb) \<and>
     Map_get ''1'' (playerRooms (fst (joinGameRoom allOpen twoRooms 10 ''room_b'' alice None corner))) = Some ''room_b''"
  by (rule exI [of _ "the (Map_get ''room_a'' (rooms (fst (joinGameRoom allOpen twoRooms 10 ''room_b'' alice None corner))))"],
      rule exI [of _ "the (Map_get ''room_b'' (rooms (fst (joinGameRoom allOpen twoRooms 10 ''room_b'' alice None corner))))"])
     code_simp

subsection \<open>The host flag\<close>

text \<open>
  Claim C2 at a failing input. alice creates \<open>room_a\<close> and then sends a join for it:
  \<^verbatim>\<open>joinGameRoom\<close> writes a new player object with the host flag off under her id. The
  room has one member, its \<^verbatim>\<open>hostId\<close> names her, and no member has the host flag.
\<close>

theorem host_rejoin_leaves_no_host:
  "\<exists>r. Map_get ''room_a'' (rooms (fst (joinGameRoom allOpen aliceHosts 10 ''room_a'' alice None corner))) = Some r \<and>
     map fst (players r) = [''1''] \<and> hostId r = ''1'' \<and>
     filter isHost (Map_values (players r)) = []"
  by (rule exI [of _ "the (Map_get ''room_a'' (rooms (fst (joinGameRoom allOpen aliceHosts 10 ''room_a'' alice None corner))))"])
     code_simp

subsection \<open>Doubles\<close>










lemma round64_zero: "round64 0 = Fin 0"
  by (simp add: round64_def)









lemma onGrid_round64: "onGrid (round64 x)"
proof (cases "x = 0")
  case True
  have "(0::real) = of_int 0 * 2 powr (- 1074)" by simp
  then show ?thesis unfolding True round64_zero onGrid_def by (simp only: jsnum.case) blast
next
  case False
  define E where "E = max \<lfloor>log 2 \<bar>x\<bar>\<rfloor> (- 1022) - 52"
  define n where "n = rne (x / ulp64 x)"
  have u: "ulp64 x = 2 powr of_int E" by (simp add: ulp64_def E_def)
  have "- 1074 \<le> E" by (simp add: E_def)
  then have "E = - 1074 + int (nat (E + 1074))" by simp
  then have "(2::real) powr of_int E = 2 powr (- 1074 + real (nat (E + 1074)))"
    by (metis of_int_add of_int_minus of_int_numeral of_int_of_nat_eq)
  also have "\<dots> = 2 powr (- 1074) * 2 ^ nat (E + 1074)"
    by (simp only: powr_add powr_realpow zero_less_numeral)
  finally have "of_int n * ulp64 x = of_int (n * 2 ^ nat (E + 1074)) * 2 powr (- 1074)"
    by (simp add: u)
  then have g: "onGrid (Fin (of_int n * ulp64 x))"
    unfolding onGrid_def by (simp only: jsnum.case) blast
  show ?thesis
    using False g by (simp add: round64_def Let_def n_def onGrid_def)
qed

lemma onGrid_jadd: "onGrid (jadd a b)"
  by (cases a; cases b) (simp_all add: onGrid_round64, simp_all add: onGrid_def)






subsection \<open>Bomb explosions\<close>











subsection \<open>The stable sort\<close>










subsection \<open>Ending a game\<close>










subsection \<open>The invariant of the voice manager\<close>

text \<open>
  Every handler of the voice manager keeps \<open>voice_inv\<close>. The join is the step that
  needs the index: the eviction takes the joiner out of the one room that the index
  names, so that afterwards no room of the store holds the joiner.
\<close>

lemma userAt_removeUserFromRoom:
  "userAt (fst (removeUserFromRoom opn s userId roomId)) r u =
     (if userAt s roomId userId \<noteq> None \<and> (u = userId \<and> r = roomId \<or>
          r = roomId \<and> (\<exists>room. Map_get roomId (vrooms s) = Some room \<and> isTemporary room \<and>
             Map_size (Map_delete userId (users room)) = 0))
      then None else userAt s r u)"
  by (auto simp: userAt_def removeUserFromRoom_def Let_def Map_get_Map_set Map_get_Map_delete
           split: option.splits)

lemma userRooms_removeUserFromRoom:
  "userRooms (fst (removeUserFromRoom opn s userId roomId)) =
     (if userAt s roomId userId \<noteq> None then Map_delete userId (userRooms s) else userRooms s)"
  by (auto simp: userAt_def removeUserFromRoom_def Let_def split: option.splits)

lemma noname_removeUserFromRoom:
  "Map_get [] (vrooms s) = None \<Longrightarrow> Map_get [] (vrooms (fst (removeUserFromRoom opn s userId roomId))) = None"
  by (auto simp: removeUserFromRoom_def Let_def Map_get_Map_set Map_get_Map_delete
           split: option.splits)

lemma voice_inv_removeUserFromRoom:
  assumes "voice_inv s"
  shows "voice_inv (fst (removeUserFromRoom opn s userId roomId))"
proof -
  have 1: "Map_get [] (vrooms (fst (removeUserFromRoom opn s userId roomId))) = None"
    using assms by (simp add: voice_inv_def noname_removeUserFromRoom)
  have 2: "Map_get u (userRooms (fst (removeUserFromRoom opn s userId roomId))) = Some r \<and>
           (isMuted v \<longrightarrow> \<not> isSpeaking v) \<and> volume v \<noteq> 0"
    if a: "userAt (fst (removeUserFromRoom opn s userId roomId)) r u = Some v"
    for r u v
  proof -
  from a have b: "userAt s r u = Some v"
    by (simp add: userAt_removeUserFromRoom split: if_splits)
  with assms have c: "Map_get u (userRooms s) = Some r" "isMuted v \<longrightarrow> \<not> isSpeaking v" "volume v \<noteq> 0"
    by (auto simp: voice_inv_def)
  have "Map_get u (userRooms (fst (removeUserFromRoom opn s userId roomId))) = Some r"
  proof (cases "userAt s roomId userId")
    case None
    then show ?thesis using c by (simp add: userRooms_removeUserFromRoom)
  next
    case (Some x)
    with assms have "Map_get userId (userRooms s) = Some roomId"
      by (auto simp: voice_inv_def)
    moreover have "\<not> (u = userId \<and> r = roomId)"
      using a Some by (auto simp: userAt_removeUserFromRoom)
    ultimately have "u \<noteq> userId" using c by auto
    then show ?thesis using c Some by (simp add: userRooms_removeUserFromRoom Map_get_Map_delete)
  qed
  then show ?thesis using c by simp
  qed
  show ?thesis unfolding voice_inv_def using 1 2 by blast
qed

lemma voice_inv_evictPrevious:
  "voice_inv s \<Longrightarrow> voice_inv (fst (evictPrevious opn s userId))"
  by (simp add: evictPrevious_def voice_inv_removeUserFromRoom split: option.splits)

lemma evictPrevious_gone:
  assumes "voice_inv s"
  shows "userAt (fst (evictPrevious opn s userId)) r userId = None"
proof (cases "userAt s r userId")
  case None
  then show ?thesis
    by (simp add: evictPrevious_def userAt_removeUserFromRoom split: option.splits)
next
  case (Some v)
  with assms have i: "Map_get userId (userRooms s) = Some r"
    by (auto simp: voice_inv_def)
  have "r \<noteq> []"
    using Some assms by (auto simp: voice_inv_def userAt_def split: option.splits)
  then show ?thesis
    using i Some by (simp add: evictPrevious_def userAt_removeUserFromRoom)
qed

lemma userAt_evictPrevious:
  "userAt (fst (evictPrevious opn s userId)) r u = Some v \<Longrightarrow> userAt s r u = Some v"
  by (auto simp: evictPrevious_def userAt_removeUserFromRoom split: option.splits if_splits)

lemma voice_inv_admit:
  assumes inv: "voice_inv s1" and gone: "\<And>r. userAt s1 r uid = None"
    and v: "isMuted v \<longrightarrow> \<not> isSpeaking v" "volume v \<noteq> 0"
  shows "voice_inv (s1\<lparr>vrooms := (if Map_has roomId (vrooms s1)
                                   then Map_set roomId (roomObj\<lparr>users := Map_set uid v (users
                                     (case Map_get roomId (vrooms s1) of Some r \<Rightarrow> r | None \<Rightarrow> other))\<rparr>) (vrooms s1)
                                   else vrooms s1),
                       userRooms := Map_set uid roomId (userRooms s1)\<rparr>)"
    (is "voice_inv ?s2")
proof -
  have at: "userAt ?s2 r u = (if r = roomId \<and> u = uid \<and> Map_has roomId (vrooms s1) then Some v
                              else userAt s1 r u)" for r u
    by (auto simp: userAt_def Map_get_Map_set Map_has_get split: option.splits)
  have 1: "Map_get [] (vrooms ?s2) = None"
    using inv by (auto simp: voice_inv_def Map_get_Map_set Map_has_get)
  have 2: "Map_get u (userRooms ?s2) = Some r \<and> (isMuted x \<longrightarrow> \<not> isSpeaking x) \<and> volume x \<noteq> 0"
    if a: "userAt ?s2 r u = Some x" for r u x
  proof (cases "r = roomId \<and> u = uid \<and> Map_has roomId (vrooms s1)")
    case True
    have "userAt ?s2 r u = Some v" unfolding at using True by simp
    with a have "x = v" by simp
    then show ?thesis using True v by (simp add: Map_get_Map_set)
  next
    case False
    have "userAt ?s2 r u = userAt s1 r u" unfolding at using False by auto
    with a have b: "userAt s1 r u = Some x" by simp
    then have "u \<noteq> uid" using gone [of r] by auto
    then show ?thesis using b inv by (auto simp: voice_inv_def Map_get_Map_set)
  qed
  show ?thesis unfolding voice_inv_def using 1 2 by blast
qed

lemma voice_inv_handleRoomJoin:
  assumes "voice_inv s"
  shows "voice_inv (fst (handleRoomJoin opn s w ro info pw))"
proof -
  have nv: "isMuted (newVoiceUser info w) \<longrightarrow> \<not> isSpeaking (newVoiceUser info w)"
    "volume (newVoiceUser info w) \<noteq> 0"
    by (simp_all add: newVoiceUser_def)
  note adm = voice_inv_admit [OF voice_inv_evictPrevious [OF assms] evictPrevious_gone [OF assms] nv]
  show ?thesis
    using assms adm
    by (auto simp: handleRoomJoin_def Let_def split: option.splits)
qed

lemma userAt_setUser:
  "Map_get roomId (vrooms s) = Some room \<Longrightarrow>
   userAt (setUser s roomId room userId u') r u =
     (if r = roomId \<and> u = userId then Some u' else userAt s r u)"
  by (auto simp: userAt_def setUser_def Map_get_Map_set)

lemma voice_inv_setUser:
  assumes inv: "voice_inv s" and r: "Map_get roomId (vrooms s) = Some room"
    and u: "Map_get userId (users room) = Some old"
    and v: "isMuted u' \<longrightarrow> \<not> isSpeaking u'" "volume u' \<noteq> 0"
  shows "voice_inv (setUser s roomId room userId u')"
proof -
  have old: "userAt s roomId userId = Some old"
    using r u by (simp add: userAt_def)
  have ur: "userRooms (setUser s roomId room userId u') = userRooms s"
    by (simp add: setUser_def)
  have 1: "Map_get [] (vrooms (setUser s roomId room userId u')) = None"
    using inv r by (auto simp: voice_inv_def setUser_def Map_get_Map_set)
  have 2: "Map_get x (userRooms (setUser s roomId room userId u')) = Some rr \<and>
           (isMuted y \<longrightarrow> \<not> isSpeaking y) \<and> volume y \<noteq> 0"
    if a: "userAt (setUser s roomId room userId u') rr x = Some y" for rr x y
  proof (cases "rr = roomId \<and> x = userId")
    case True
    then have "y = u'" using a by (simp add: userAt_setUser [OF r])
    then show ?thesis using True inv old v by (auto simp: voice_inv_def ur)
  next
    case False
    then have "userAt s rr x = Some y" using a by (auto simp: userAt_setUser [OF r])
    then show ?thesis using inv by (auto simp: voice_inv_def ur)
  qed
  show ?thesis unfolding voice_inv_def using 1 2 by blast
qed

lemma Map_get_Nil: "Map_get k [] = None"
  by (simp add: Map_get_def)

lemma voice_inv_createRoom:
  assumes "voice_inv s" and "rid \<noteq> []"
  shows "voice_inv (fst (createRoom s rid owner private pw maxU temporary))"
proof -
  have at: "userAt (fst (createRoom s rid owner private pw maxU temporary)) r u =
              (if r = rid then None else userAt s r u)" for r u
    by (auto simp: userAt_def createRoom_def Let_def Map_get_Map_set Map_get_Nil)
  show ?thesis
    using assms unfolding voice_inv_def
    by (auto simp: at split: if_splits) (auto simp: createRoom_def Let_def Map_get_Map_set)
qed

lemma voice_inv_handleRoomCreate:
  "voice_inv s \<Longrightarrow> voice_inv (fst (handleRoomCreate opn s w rnd roomData info))"
  by (simp add: handleRoomCreate_def Let_def voice_inv_handleRoomJoin voice_inv_createRoom)

lemma voice_inv_handleNoiseReduction:
  assumes "voice_inv s"
  shows "voice_inv (fst (handleNoiseReduction opn s roomId userId enabled))"
proof -
  have at: "userAt (fst (handleNoiseReduction opn s roomId userId enabled)) r u = userAt s r u" for r u
    by (auto simp: userAt_def handleNoiseReduction_def Let_def Map_get_Map_set split: option.splits)
  have ur: "userRooms (fst (handleNoiseReduction opn s roomId userId enabled)) = userRooms s"
    by (auto simp: handleNoiseReduction_def Let_def split: option.splits)
  have nn: "Map_get [] (vrooms (fst (handleNoiseReduction opn s roomId userId enabled))) = None"
    using assms
    by (auto simp: voice_inv_def handleNoiseReduction_def Let_def Map_get_Map_set split: option.splits)
  show ?thesis using assms nn unfolding voice_inv_def by (simp add: at ur)
qed

lemma voice_inv_step:
  assumes "voice_inv s"
  shows "voice_inv (fst (handleVoiceMessage opn s w req))"
proof (cases req)
  case (VoiceRoomJoin ro info pw)
  then show ?thesis using assms by (simp add: voice_inv_handleRoomJoin)
next
  case (VoiceRoomLeave roomId userId)
  then show ?thesis using assms by (simp add: handleRoomLeave_def voice_inv_removeUserFromRoom)
next
  case (VoiceStartSpeaking roomId userId)
  then show ?thesis using assms
    by (auto simp: handleStartSpeaking_def Let_def voice_inv_def [of s] userAt_def
             intro!: voice_inv_setUser [OF assms] split: option.splits)
next
  case (VoiceStopSpeaking roomId userId)
  then show ?thesis using assms
    by (auto simp: handleStopSpeaking_def Let_def voice_inv_def [of s] userAt_def
             intro!: voice_inv_setUser [OF assms] split: option.splits)
next
  case (VoiceAudioData roomId userId a)
  then show ?thesis using assms by (simp add: handleAudioData_def split: option.splits)
next
  case (VoiceMute roomId userId)
  then show ?thesis using assms
    by (auto simp: handleMute_def Let_def voice_inv_def [of s] userAt_def
             intro!: voice_inv_setUser [OF assms] split: option.splits)
next
  case (VoiceUnmute roomId userId)
  then show ?thesis using assms
    by (auto simp: handleUnmute_def Let_def voice_inv_def [of s] userAt_def
             intro!: voice_inv_setUser [OF assms] split: option.splits)
next
  case (VoiceRoomCreate rnd roomData info)
  then show ?thesis using assms by (simp add: voice_inv_handleRoomCreate)
next
  case (VoiceQualityChange roomId userId q v)
  then show ?thesis using assms
    by (auto simp: handleQualityChange_def Let_def voice_inv_def [of s] userAt_def orVolume_def
             intro!: voice_inv_setUser [OF assms] split: option.splits)
next
  case (VoiceEchoTest roomId userId a)
  then show ?thesis using assms by (simp add: handleEchoTest_def)
next
  case (VoiceNoiseReduction roomId userId enabled)
  then show ?thesis using assms by (simp add: voice_inv_handleNoiseReduction)
next
  case UnknownVoiceType
  then show ?thesis using assms by simp
qed

lemma voice_inv_init: "voice_inv setupDefaultRooms"
  by (simp add: voice_inv_def userAt_def setupDefaultRooms_def createRoom_def Let_def Map_get_def)

lemma voice_reachable_inv: "voice_reachable s \<Longrightarrow> voice_inv s"
  by (induction rule: voice_reachable.induct)
     (simp_all add: voice_inv_init voice_inv_step handleUserDisconnect_def voice_inv_evictPrevious)

lemma volume_never_zero:
  "voice_reachable s \<Longrightarrow> userAt s roomId userId = Some u \<Longrightarrow> volume u \<noteq> 0"
  using voice_reachable_inv unfolding voice_inv_def by blast

lemma voice_member_of_one_room:
  assumes "voice_reachable s" and "userAt s r1 userId = Some x" and "userAt s r2 userId = Some y"
  shows "r1 = r2"
proof -
  have i: "voice_inv s" using assms(1) by (rule voice_reachable_inv)
  have "Map_get userId (userRooms s) = Some r1" using i assms(2) unfolding voice_inv_def by blast
  moreover have "Map_get userId (userRooms s) = Some r2"
    using i assms(3) unfolding voice_inv_def by blast
  ultimately show ?thesis by simp
qed

subsection \<open>Where a start-speaking event comes from\<close>

lemma voice_fanout_all:
  "concat (map (\<lambda>e. if opn (vu_ws (snd e))
                      then sendToUser opn (vu_ws (snd e)) msg else []) us)
   = map (\<lambda>c. (c, msg)) (filter opn (map vu_ws (Map_values us)))"
  by (induction us) (auto simp: sendToUser_def Map_values_def)

lemma broadcastToVoiceRoom_all:
  "Map_get roomId rs = Some room \<Longrightarrow>
   broadcastToVoiceRoom opn rs roomId msg None
   = map (\<lambda>c. (c, msg)) (filter opn (map vu_ws (Map_values (users room))))"
  by (simp add: broadcastToVoiceRoom_def voice_fanout_all)

lemma in_broadcastToVoiceRoom:
  "(c, m) \<in> set (broadcastToVoiceRoom opn rs roomId msg ex) \<Longrightarrow> m = msg"
  by (auto simp: broadcastToVoiceRoom_def sendToUser_def split: option.splits if_splits)

lemma in_sendToUser: "(c, m) \<in> set (sendToUser opn w msg) \<Longrightarrow> m = msg"
  by (auto simp: sendToUser_def split: if_splits)

lemma in_removeUserFromRoom:
  "(c, m) \<in> set (snd (removeUserFromRoom opn s userId roomId)) \<Longrightarrow> vm_type m = voice_user_status"
  by (auto simp: removeUserFromRoom_def Let_def split: option.splits dest!: in_broadcastToVoiceRoom)

lemma in_evictPrevious:
  "(c, m) \<in> set (snd (evictPrevious opn s userId)) \<Longrightarrow> vm_type m = voice_user_status"
  by (auto simp: evictPrevious_def split: option.splits if_splits dest: in_removeUserFromRoom)

lemma in_handleRoomJoin:
  "(c, m) \<in> set (snd (handleRoomJoin opn s w ro info pw)) \<Longrightarrow>
   vm_type m = voice_user_status \<or> vm_type m = voice_room_join"
  by (auto simp: handleRoomJoin_def Let_def sendVoiceError_def
           split: option.splits if_splits
           dest!: in_broadcastToVoiceRoom in_sendToUser in_evictPrevious)

lemma in_handleRoomCreate:
  "(c, m) \<in> set (snd (handleRoomCreate opn s w rnd roomData info)) \<Longrightarrow>
   vm_type m = voice_user_status \<or> vm_type m = voice_room_join \<or> vm_type m = voice_room_create"
  by (auto simp: handleRoomCreate_def Let_def dest!: in_sendToUser in_handleRoomJoin)

lemma in_handleAudioData:
  "(c, m) \<in> set (snd (handleAudioData opn s roomId userId a)) \<Longrightarrow> vm_type m = voice_audio_data"
  by (auto simp: handleAudioData_def Let_def split: option.splits if_splits dest!: in_sendToUser)

lemma start_speaking_origin:
  assumes "(c, m) \<in> set (snd (handleVoiceMessage opn s w req))" and "vm_type m = voice_start_speaking"
  shows "\<exists>roomId u. req = VoiceStartSpeaking roomId (vm_userId m) \<and>
           userAt s roomId (vm_userId m) = Some u \<and> \<not> isMuted u"
proof (cases req)
  case (VoiceRoomJoin ro info pw)
  then show ?thesis using assms in_handleRoomJoin [of c m opn s w ro info pw] by auto
next
  case (VoiceRoomLeave roomId userId)
  then show ?thesis using assms in_removeUserFromRoom [of c m opn s userId roomId]
    by (auto simp: handleRoomLeave_def)
next
  case (VoiceStartSpeaking roomId userId)
  then show ?thesis using assms
    by (auto simp: handleStartSpeaking_def Let_def userAt_def split: option.splits if_splits
             dest!: in_broadcastToVoiceRoom)
next
  case (VoiceStopSpeaking roomId userId)
  then show ?thesis using assms
    by (auto simp: handleStopSpeaking_def Let_def split: option.splits dest!: in_broadcastToVoiceRoom)
next
  case (VoiceAudioData roomId userId a)
  then show ?thesis using assms in_handleAudioData [of c m opn s roomId userId a] by auto
next
  case (VoiceMute roomId userId)
  then show ?thesis using assms
    by (auto simp: handleMute_def Let_def split: option.splits dest!: in_broadcastToVoiceRoom)
next
  case (VoiceUnmute roomId userId)
  then show ?thesis using assms
    by (auto simp: handleUnmute_def Let_def split: option.splits dest!: in_broadcastToVoiceRoom)
next
  case (VoiceRoomCreate rnd roomData info)
  then show ?thesis using assms in_handleRoomCreate [of c m opn s w rnd roomData info] by auto
next
  case (VoiceQualityChange roomId userId q v)
  then show ?thesis using assms
    by (auto simp: handleQualityChange_def Let_def split: option.splits dest!: in_sendToUser)
next
  case (VoiceEchoTest roomId userId a)
  then show ?thesis using assms by (auto simp: handleEchoTest_def dest!: in_sendToUser)
next
  case (VoiceNoiseReduction roomId userId enabled)
  then show ?thesis using assms
    by (auto simp: handleNoiseReduction_def Let_def split: option.splits if_splits
             dest!: in_broadcastToVoiceRoom)
next
  case UnknownVoiceType
  then show ?thesis using assms by simp
qed

lemma voice_one_room:
  "voice_inv s \<Longrightarrow> userAt s r1 u = Some x \<Longrightarrow> userAt s r2 u = Some y \<Longrightarrow> r1 = r2 \<and> x = y"
proof -
  assume i: "voice_inv s" and a: "userAt s r1 u = Some x" and b: "userAt s r2 u = Some y"
  have "Map_get u (userRooms s) = Some r1" using i a unfolding voice_inv_def by blast
  moreover have "Map_get u (userRooms s) = Some r2" using i b unfolding voice_inv_def by blast
  ultimately have "r1 = r2" by simp
  with a b show ?thesis by simp
qed

subsection \<open>What can clear a mute flag\<close>

lemma userAt_handleRoomJoin:
  assumes "userAt (fst (handleRoomJoin opn s w ro info pw)) r u = Some x" and "u \<noteq> ui_id info"
  shows "userAt s r u = Some x"
proof -
  let ?s1 = "fst (evictPrevious opn s (ui_id info))"
  have at: "userAt (?s1\<lparr>vrooms := (if Map_has roomId (vrooms ?s1)
                                   then Map_set roomId (roomObj\<lparr>users := Map_set (ui_id info) v (users
                                     (case Map_get roomId (vrooms ?s1) of Some r \<Rightarrow> r | None \<Rightarrow> other))\<rparr>) (vrooms ?s1)
                                   else vrooms ?s1),
                       userRooms := ur\<rparr>) r u = userAt ?s1 r u" for roomId roomObj v other ur
    using assms(2) by (auto simp: userAt_def Map_get_Map_set Map_has_get split: option.splits)
  have "userAt ?s1 r u = Some x \<or> userAt s r u = Some x"
    using assms(1) at
    by (auto simp: handleRoomJoin_def Let_def split: option.splits if_splits)
  then show ?thesis using userAt_evictPrevious by blast
qed

lemma mute_flag_step:
  assumes "userAt s roomId userId = Some user" and "isMuted user"
    and "userAt (fst (handleVoiceMessage opn s w req)) roomId userId = Some user'"
    and "\<not> isMuted user'"
  shows "req = VoiceUnmute roomId userId \<or>
         (\<exists>ro info pw. req = VoiceRoomJoin ro info pw \<and> ui_id info = userId)"
proof (cases req)
  case (VoiceRoomJoin ro info pw)
  then show ?thesis using assms userAt_handleRoomJoin [of opn s w ro info pw roomId userId user']
    by auto
next
  case (VoiceRoomLeave r u)
  then show ?thesis using assms
    by (auto simp: handleRoomLeave_def userAt_removeUserFromRoom split: if_splits)
next
  case (VoiceStartSpeaking r u)
  then show ?thesis using assms
    by (auto simp: handleStartSpeaking_def Let_def userAt_setUser userAt_def [of s]
             split: option.splits if_splits)
next
  case (VoiceStopSpeaking r u)
  then show ?thesis using assms
    by (auto simp: handleStopSpeaking_def Let_def userAt_setUser userAt_def [of s]
             split: option.splits if_splits)
next
  case (VoiceAudioData r u a)
  then show ?thesis using assms by (auto simp: handleAudioData_def split: option.splits if_splits)
next
  case (VoiceMute r u)
  then show ?thesis using assms
    by (auto simp: handleMute_def Let_def userAt_setUser userAt_def [of s]
             split: option.splits if_splits)
next
  case (VoiceUnmute r u)
  then show ?thesis using assms
    by (auto simp: handleUnmute_def Let_def userAt_setUser userAt_def [of s]
             split: option.splits if_splits)
next
  case (VoiceRoomCreate rnd roomData info)
  have at: "userAt (fst (createRoom s rid owner priv pw maxU temporary)) r u =
              (if r = rid then None else userAt s r u)" for r u rid owner priv pw maxU temporary
    by (auto simp: userAt_def createRoom_def Let_def Map_get_Map_set Map_get_Nil)
  have "fst (handleRoomJoin opn s0 w None info None) = s0" for s0
    by (simp add: handleRoomJoin_def)
  then show ?thesis using assms VoiceRoomCreate
    by (auto simp: handleRoomCreate_def Let_def at split: if_splits)
next
  case (VoiceQualityChange r u q v)
  then show ?thesis using assms
    by (auto simp: handleQualityChange_def Let_def userAt_setUser userAt_def [of s]
             split: option.splits if_splits)
next
  case (VoiceEchoTest r u a)
  then show ?thesis using assms by (auto simp: handleEchoTest_def)
next
  case (VoiceNoiseReduction r u enabled)
  have "userAt (fst (handleNoiseReduction opn s r u enabled)) rr x = userAt s rr x" for rr x
    by (auto simp: userAt_def handleNoiseReduction_def Let_def Map_get_Map_set split: option.splits)
  then show ?thesis using assms VoiceNoiseReduction by auto
next
  case UnknownVoiceType
  then show ?thesis using assms by auto
qed

subsection \<open>Muting\<close>

lemma reachable_annAndBen: "voice_reachable annAndBen"
proof -
  have "voice_reachable (fst (handleVoiceMessage allOpen setupDefaultRooms 20
          (VoiceRoomJoin (Some ''general'') ann None)))"
    by (rule vr_message [OF vr_init])
  then have "voice_reachable (fst (handleVoiceMessage allOpen
          (fst (handleVoiceMessage allOpen setupDefaultRooms 20
                  (VoiceRoomJoin (Some ''general'') ann None)))
          21 (VoiceRoomJoin (Some ''general'') ben None)))"
    by (rule vr_message)
  then show ?thesis by (simp add: annAndBen_def)
qed

lemma reachable_annMuted: "voice_reachable annMuted"
proof -
  have "voice_reachable (fst (handleVoiceMessage allOpen annAndBen 20 (VoiceMute ''general'' ''1'')))"
    by (rule vr_message [OF reachable_annAndBen])
  then show ?thesis by (simp add: annMuted_def)
qed

text \<open>
  Claim C8, as stated, does not hold: a mute does not last until a \<^verbatim>\<open>voice_unmute\<close>. A
  \<^verbatim>\<open>voice_room_join\<close> of a member for the room it is in takes the member out of the
  room and puts a new user object in, and \<^verbatim>\<open>handleRoomJoin\<close> builds that object with
  the mute flag off. ann, muted in \<open>general\<close>, sends a join for \<open>general\<close>: she is in
  the room with the flag off, and her next \<^verbatim>\<open>voice_start_speaking\<close> goes to ben. No
  \<^verbatim>\<open>voice_unmute\<close> has been sent.
\<close>

theorem rejoin_clears_mute:
  "voice_reachable annMuted \<and>
   (\<exists>u. userAt annMuted ''general'' ''1'' = Some u \<and> isMuted u) \<and>
   annRejoined = fst (handleVoiceMessage allOpen annMuted 20
                        (VoiceRoomJoin (Some ''general'') ann None)) \<and>
   (\<exists>u. userAt annRejoined ''general'' ''1'' = Some u \<and> \<not> isMuted u) \<and>
   (21, \<lparr>vm_type = voice_start_speaking, vm_roomId = ''general'', vm_userId = ''1'',
         vm_data = StartSpeakingData ''ann'' (Some QMedium)\<rparr>)
     \<in> set (snd (handleVoiceMessage allOpen annRejoined 20 (VoiceStartSpeaking ''general'' ''1'')))"
proof -
  have 1: "\<exists>u. userAt annMuted ''general'' ''1'' = Some u \<and> isMuted u"
    by (rule exI [of _ "the (userAt annMuted ''general'' ''1'')"]; code_simp)
  have 2: "annRejoined = fst (handleVoiceMessage allOpen annMuted 20
                        (VoiceRoomJoin (Some ''general'') ann None))"
    by (simp only: annRejoined_def)
  have 3: "\<exists>u. userAt annRejoined ''general'' ''1'' = Some u \<and> \<not> isMuted u"
    by (rule exI [of _ "the (userAt annRejoined ''general'' ''1'')"]; code_simp)
  have 4: "(21, \<lparr>vm_type = voice_start_speaking, vm_roomId = ''general'', vm_userId = ''1'',
         vm_data = StartSpeakingData ''ann'' (Some QMedium)\<rparr>)
     \<in> set (snd (handleVoiceMessage allOpen annRejoined 20 (VoiceStartSpeaking ''general'' ''1'')))"
    by code_simp
  show ?thesis
    by (intro conjI reachable_annMuted 1 2 3 4)
qed

text \<open>
  Claim C8, amended. In every state the voice manager can reach, for every member of a
  room: a \<^verbatim>\<open>voice_mute\<close> for the member sets the mute flag and clears the speaking flag
  in one step, and the \<^verbatim>\<open>voice_mute\<close> event goes to every member of the room with an
  open socket, the muted member's own socket among them. A \<^verbatim>\<open>voice_unmute\<close> for the
  member clears the mute flag, changes nothing else of the member, and the
  \<^verbatim>\<open>voice_unmute\<close> event goes to every member of the room with an open socket, the
  member's own socket among them. While the mute flag of the member is set, the speaking
  flag is not set, and no message, from anyone, and no close of a socket makes the
  manager send a \<^verbatim>\<open>voice_start_speaking\<close> event for the member. The flag stays set for
  as long as the member is in the room, until a \<^verbatim>\<open>voice_unmute\<close> for the member in
  this room or a \<^verbatim>\<open>voice_room_join\<close> with the member's id: no other message clears it.
  The state after each step is again a state the manager can reach, so this holds from
  the mute on.
\<close>

theorem mute_blocks_speaking:
  assumes reach: "voice_reachable s"
    and room: "Map_get roomId (vrooms s) = Some room"
    and user: "Map_get userId (users room) = Some user"
  shows
   "userAt (fst (handleMute opn s roomId userId)) roomId userId =
      Some (user\<lparr>isMuted := True, isSpeaking := False\<rparr>) \<and>
    snd (handleMute opn s roomId userId) =
      map (\<lambda>c. (c, \<lparr>vm_type = voice_mute, vm_roomId = roomId, vm_userId = userId,
                      vm_data = MuteData (vu_username user) True\<rparr>))
          (filter opn (map vu_ws (Map_values
             (Map_set userId (user\<lparr>isMuted := True, isSpeaking := False\<rparr>) (users room))))) \<and>
    vu_ws user \<in> set (map vu_ws (Map_values
             (Map_set userId (user\<lparr>isMuted := True, isSpeaking := False\<rparr>) (users room)))) \<and>
    userAt (fst (handleUnmute opn s roomId userId)) roomId userId =
      Some (user\<lparr>isMuted := False\<rparr>) \<and>
    snd (handleUnmute opn s roomId userId) =
      map (\<lambda>c. (c, \<lparr>vm_type = voice_unmute, vm_roomId = roomId, vm_userId = userId,
                      vm_data = MuteData (vu_username user) False\<rparr>))
          (filter opn (map vu_ws (Map_values
             (Map_set userId (user\<lparr>isMuted := False\<rparr>) (users room))))) \<and>
    vu_ws user \<in> set (map vu_ws (Map_values
             (Map_set userId (user\<lparr>isMuted := False\<rparr>) (users room)))) \<and>
    (isMuted user \<longrightarrow>
       \<not> isSpeaking user \<and>
       (\<forall>opn' w req c m. (c, m) \<in> set (snd (handleVoiceMessage opn' s w req)) \<and>
            vm_type m = voice_start_speaking \<longrightarrow> vm_userId m \<noteq> userId) \<and>
       (\<forall>opn' u c m. (c, m) \<in> set (snd (handleUserDisconnect opn' s u)) \<longrightarrow>
            vm_type m \<noteq> voice_start_speaking) \<and>
       (\<forall>opn' w req user'.
            userAt (fst (handleVoiceMessage opn' s w req)) roomId userId = Some user' \<and>
            \<not> isMuted user' \<longrightarrow>
            req = VoiceUnmute roomId userId \<or>
            (\<exists>ro info pw. req = VoiceRoomJoin ro info pw \<and> ui_id info = userId)))"
proof -
  let ?muted = "user\<lparr>isMuted := True, isSpeaking := False\<rparr>"
  let ?msg = "\<lparr>vm_type = voice_mute, vm_roomId = roomId, vm_userId = userId,
               vm_data = MuteData (vu_username user) True\<rparr>"
  let ?s1 = "setUser s roomId room userId ?muted"
  have inv: "voice_inv s" using reach by (rule voice_reachable_inv)
  have at: "userAt s roomId userId = Some user"
    using room user by (simp add: userAt_def)
  have hm: "handleMute opn s roomId userId = (?s1, broadcastToVoiceRoom opn (vrooms ?s1) roomId ?msg None)"
    using room user by (simp add: handleMute_def Let_def)
  have g: "Map_get roomId (vrooms ?s1) = Some (room\<lparr>users := Map_set userId ?muted (users room)\<rparr>)"
    by (simp add: setUser_def Map_get_Map_set)
  have 1: "userAt (fst (handleMute opn s roomId userId)) roomId userId = Some ?muted"
    by (simp add: hm userAt_setUser [OF room])
  have 2: "snd (handleMute opn s roomId userId) =
      map (\<lambda>c. (c, ?msg)) (filter opn (map vu_ws (Map_values (Map_set userId ?muted (users room)))))"
    using broadcastToVoiceRoom_all [OF g] by (simp add: hm)
  have "Map_get userId (Map_set userId ?muted (users room)) = Some ?muted"
    by (simp add: Map_get_Map_set)
  then have "(userId, ?muted) \<in> set (Map_set userId ?muted (users room))"
    by (simp add: Map_get_def map_of_SomeD)
  then have "vu_ws ?muted \<in> set (map vu_ws (Map_values (Map_set userId ?muted (users room))))"
    by (force simp: Map_values_def)
  then have 3: "vu_ws user \<in> set (map vu_ws (Map_values (Map_set userId ?muted (users room))))"
    by simp
  let ?open = "user\<lparr>isMuted := False\<rparr>"
  let ?umsg = "\<lparr>vm_type = voice_unmute, vm_roomId = roomId, vm_userId = userId,
                vm_data = MuteData (vu_username user) False\<rparr>"
  let ?s2 = "setUser s roomId room userId ?open"
  have hu: "handleUnmute opn s roomId userId = (?s2, broadcastToVoiceRoom opn (vrooms ?s2) roomId ?umsg None)"
    using room user by (simp add: handleUnmute_def Let_def)
  have gu: "Map_get roomId (vrooms ?s2) = Some (room\<lparr>users := Map_set userId ?open (users room)\<rparr>)"
    by (simp add: setUser_def Map_get_Map_set)
  have u1: "userAt (fst (handleUnmute opn s roomId userId)) roomId userId = Some ?open"
    by (simp add: hu userAt_setUser [OF room])
  have u2: "snd (handleUnmute opn s roomId userId) =
      map (\<lambda>c. (c, ?umsg)) (filter opn (map vu_ws (Map_values (Map_set userId ?open (users room)))))"
    using broadcastToVoiceRoom_all [OF gu] by (simp add: hu)
  have "Map_get userId (Map_set userId ?open (users room)) = Some ?open"
    by (simp add: Map_get_Map_set)
  then have "(userId, ?open) \<in> set (Map_set userId ?open (users room))"
    by (simp add: Map_get_def map_of_SomeD)
  then have "vu_ws ?open \<in> set (map vu_ws (Map_values (Map_set userId ?open (users room))))"
    by (force simp: Map_values_def)
  then have u3: "vu_ws user \<in> set (map vu_ws (Map_values (Map_set userId ?open (users room))))"
    by simp
  have 4: "\<not> isSpeaking user" if "isMuted user"
    using inv at that unfolding voice_inv_def by blast
  have 5: "vm_userId m \<noteq> userId"
    if m: "isMuted user" and a: "(c, m) \<in> set (snd (handleVoiceMessage opn' s w req)) \<and>
            vm_type m = voice_start_speaking" for opn' w req c m
  proof
    assume e: "vm_userId m = userId"
    from a obtain r u where "userAt s r (vm_userId m) = Some u" and nm: "\<not> isMuted u"
      using start_speaking_origin [of c m opn' s w req] by blast
    then have "userAt s r userId = Some u" using e by simp
    with voice_one_room [OF inv at] have "user = u" by blast
    with m nm show False by simp
  qed
  have 6: "vm_type m \<noteq> voice_start_speaking"
    if "(c, m) \<in> set (snd (handleUserDisconnect opn' s u))" for opn' u c m
    using in_evictPrevious [of c m opn' s u] that by (simp add: handleUserDisconnect_def)
  have 7: "req = VoiceUnmute roomId userId \<or>
            (\<exists>ro info pw. req = VoiceRoomJoin ro info pw \<and> ui_id info = userId)"
    if "isMuted user" and "userAt (fst (handleVoiceMessage opn' s w req)) roomId userId = Some user' \<and>
            \<not> isMuted user'" for opn' w req user'
    using mute_flag_step [OF at, of opn' w req user'] that by blast
  have 8: "isMuted user \<longrightarrow>
       \<not> isSpeaking user \<and>
       (\<forall>opn' w req c m. (c, m) \<in> set (snd (handleVoiceMessage opn' s w req)) \<and>
            vm_type m = voice_start_speaking \<longrightarrow> vm_userId m \<noteq> userId) \<and>
       (\<forall>opn' u c m. (c, m) \<in> set (snd (handleUserDisconnect opn' s u)) \<longrightarrow>
            vm_type m \<noteq> voice_start_speaking) \<and>
       (\<forall>opn' w req user'.
            userAt (fst (handleVoiceMessage opn' s w req)) roomId userId = Some user' \<and>
            \<not> isMuted user' \<longrightarrow>
            req = VoiceUnmute roomId userId \<or>
            (\<exists>ro info pw. req = VoiceRoomJoin ro info pw \<and> ui_id info = userId))"
    using 4 5 6 7 by blast
  show ?thesis
    by (intro conjI 1 2 3 u1 u2 u3 8)
qed

theorem mute_blocks_speaking_witness:
  "voice_reachable annMuted \<and>
   (\<exists>m. snd (handleMute allOpen annAndBen ''general'' ''1'') = [(20, m), (21, m)] \<and>
        vm_type m = voice_mute \<and> vm_userId m = ''1'' \<and> vm_data m = MuteData ''ann'' True) \<and>
   (\<exists>u. userAt annMuted ''general'' ''1'' = Some u \<and> isMuted u \<and> \<not> isSpeaking u) \<and>
   \<not> (\<exists>c m. (c, m) \<in> set (snd (handleVoiceMessage allOpen annMuted 20
                                   (VoiceStartSpeaking ''general'' ''1''))) \<and>
            vm_type m = voice_start_speaking \<and> vm_userId m = ''1'') \<and>
   (\<exists>m. snd (handleUnmute allOpen annMuted ''general'' ''1'') = [(20, m), (21, m)] \<and>
        vm_type m = voice_unmute \<and> vm_userId m = ''1'' \<and> vm_data m = MuteData ''ann'' False) \<and>
   (\<exists>u. userAt annUnmuted ''general'' ''1'' = Some u \<and> \<not> isMuted u \<and> \<not> isSpeaking u)"
proof -
  obtain r0 u0 where r0: "Map_get ''general'' (vrooms annAndBen) = Some r0"
    and u0: "Map_get ''1'' (users r0) = Some u0"
    and n0: "vu_username u0 = ''ann''"
    and w0: "filter allOpen (map vu_ws (Map_values
               (Map_set ''1'' (u0\<lparr>isMuted := True, isSpeaking := False\<rparr>) (users r0)))) = [20, 21]"
    by (rule that [of "the (Map_get ''general'' (vrooms annAndBen))"
          "the (Map_get ''1'' (users (the (Map_get ''general'' (vrooms annAndBen)))))"]; code_simp)
  obtain r1 u1 where r1: "Map_get ''general'' (vrooms annMuted) = Some r1"
    and u1: "Map_get ''1'' (users r1) = Some u1" and m1: "isMuted u1"
    and n1: "vu_username u1 = ''ann''"
    and w1: "filter allOpen (map vu_ws (Map_values
               (Map_set ''1'' (u1\<lparr>isMuted := False\<rparr>) (users r1)))) = [20, 21]"
    by (rule that [of "the (Map_get ''general'' (vrooms annMuted))"
          "the (Map_get ''1'' (users (the (Map_get ''general'' (vrooms annMuted)))))"]; code_simp)
  note a = mute_blocks_speaking [OF reachable_annAndBen r0 u0, of allOpen]
  note b = mute_blocks_speaking [OF reachable_annMuted r1 u1, of allOpen]
  have 1: "\<exists>m. snd (handleMute allOpen annAndBen ''general'' ''1'') = [(20, m), (21, m)] \<and>
        vm_type m = voice_mute \<and> vm_userId m = ''1'' \<and> vm_data m = MuteData ''ann'' True"
    using a [THEN conjunct2, THEN conjunct1, unfolded w0 n0] by simp
  have at: "userAt annMuted ''general'' ''1'' = Some u1"
    using r1 u1 by (simp add: userAt_def)
  have 2: "\<exists>u. userAt annMuted ''general'' ''1'' = Some u \<and> isMuted u \<and> \<not> isSpeaking u"
    using b m1 at by blast
  have 3: "\<not> (\<exists>c m. (c, m) \<in> set (snd (handleVoiceMessage allOpen annMuted 20
                                   (VoiceStartSpeaking ''general'' ''1''))) \<and>
            vm_type m = voice_start_speaking \<and> vm_userId m = ''1'')"
    using b m1 by blast
  have 4: "\<exists>m. snd (handleUnmute allOpen annMuted ''general'' ''1'') = [(20, m), (21, m)] \<and>
        vm_type m = voice_unmute \<and> vm_userId m = ''1'' \<and> vm_data m = MuteData ''ann'' False"
    using b [THEN conjunct2, THEN conjunct2, THEN conjunct2, THEN conjunct2, THEN conjunct1,
             unfolded w1 n1] by simp
  have ns: "\<not> isSpeaking u1"
    using b m1 by blast
  have "userAt annUnmuted ''general'' ''1'' = Some (u1\<lparr>isMuted := False\<rparr>)"
    using b [THEN conjunct2, THEN conjunct2, THEN conjunct2, THEN conjunct1]
    by (simp add: annUnmuted_def)
  then have 5: "\<exists>u. userAt annUnmuted ''general'' ''1'' = Some u \<and> \<not> isMuted u \<and> \<not> isSpeaking u"
    using ns by simp
  show ?thesis by (intro conjI reachable_annMuted 1 2 3 4 5)
qed

end
